theory Spec2Isabelle
  imports Main
begin

section \<open>Values of the cluster core\<close>

text \<open>
  The cluster core of the device manager (\<^verbatim>\<open>src/cluster\<close> and \<^verbatim>\<open>src/devices/crypto.py\<close>)
  stores every setting, certificate and key as a Python \<^verbatim>\<open>str\<close> in one key/value table.
  A Python string is modelled as a list of symbols. A symbol is a character, or one of
  the texts the cryptography library renders and reads back: the PEM armour of a
  certificate, of a private key or of a signing request, and the hexadecimal SHA-256
  digest of a certificate. These texts are kept symbolic: the armour of an object stands
  for that object and nothing else, which is what \<^verbatim>\<open>public_bytes\<close> followed by
  \<^verbatim>\<open>load_pem_...\<close> gives in the library. All of them are non-empty ASCII texts.

  A private key is a number (the secret drawn by the generator); the public key of the
  private key \<open>k\<close> is named by the same number.
\<close>

datatype sym =
    Chr char
  | PemCertificate certificate
  | PemPrivateKey nat
  | PemCsr csr
  | Sha256Hex certificate
and general_name = DNSName "sym list"
and certificate = Certificate
    (cert_subject: "sym list")
    (cert_issuer: "sym list")
    (cert_public_key: nat)
    (cert_serial_number: nat)
    (cert_not_valid_before: int)
    (cert_not_valid_after: int)
    (cert_basic_constraints_ca: bool)
    (cert_san: "general_name list option")
    (cert_signed_with: nat)
and csr = CertificateSigningRequest
    (csr_subject: "sym list")
    (csr_public_key: nat)
    (csr_san: "general_name list option")
    (csr_signed_with: nat)

type_synonym pystr = "sym list"

text \<open>A string literal of the source.\<close>

abbreviation str :: "string \<Rightarrow> pystr" where
  "str s \<equiv> map Chr s"

text \<open>
  A \<^verbatim>\<open>datetime\<close> is the number of microseconds since the epoch (the resolution of
  Python's \<^verbatim>\<open>datetime\<close>), a \<^verbatim>\<open>timedelta\<close> a number of microseconds.
\<close>

type_synonym datetime = int

definition seconds :: "int \<Rightarrow> int" where
  "seconds n = n * 1000000"

definition minutes :: "int \<Rightarrow> int" where
  "minutes n = seconds (n * 60)"

definition days :: "int \<Rightarrow> int" where
  "days n = seconds (n * 86400)"

text \<open>
  Exceptions are values. \<open>HTTPException\<close> carries the status code and the detail the
  handler raises; the other constructors are exceptions no handler catches (the
  framework answers 500).
\<close>

datatype error =
    HTTPException nat pystr
  | ValueError
  | ValidationError
  | IntegrityError
  | CryptoError

text \<open>Python truthiness of an optional string: \<^verbatim>\<open>None\<close> and \<^verbatim>\<open>""\<close> are false.\<close>

fun truthy :: "pystr option \<Rightarrow> bool" where
  "truthy None = False"
| "truthy (Some s) = (s \<noteq> [])"

text \<open>\<^verbatim>\<open>x or default\<close> for an optional string \<open>x\<close>.\<close>

definition py_or :: "pystr option \<Rightarrow> pystr \<Rightarrow> pystr" where
  "py_or x d = (case x of None \<Rightarrow> d | Some s \<Rightarrow> (if s = [] then d else s))"

section \<open>The tables (src/cluster/models.py)\<close>

record PairedDevice =
  pd_device_id :: pystr
  pd_ip_address :: pystr
  pd_role :: pystr
  pd_cluster_id :: "pystr option"
  pd_shared_secret :: "pystr option"
  pd_paired_at :: "datetime option"
  pd_last_seen :: "datetime option"

record PairingToken =
  pt_token :: pystr
  pt_source_device_id :: "pystr option"
  pt_target_device_id :: "pystr option"
  pt_cluster_id :: "pystr option"
  pt_created_at :: "datetime option"
  pt_expires_at :: datetime
  pt_used :: bool

text \<open>
  The database: \<^verbatim>\<open>device_metadata\<close> maps a key to its nullable value (a key without a
  row is \<open>None\<close>, a row holding NULL is \<open>Some None\<close>); the two other tables are the
  lists of their rows in storage order, the position of a row standing for its
  auto-incremented surrogate key, which no handler reads.
\<close>

record db =
  device_metadata :: "pystr \<rightharpoonup> pystr option"
  paired_devices :: "PairedDevice list"
  pairing_tokens :: "PairingToken list"

section \<open>The metadata store (src/cluster/service.py)\<close>

definition get_metadata :: "db \<Rightarrow> pystr \<Rightarrow> pystr option" where
  "get_metadata d key = (case device_metadata d key of None \<Rightarrow> None | Some v \<Rightarrow> v)"

definition set_metadata :: "db \<Rightarrow> pystr \<Rightarrow> pystr option \<Rightarrow> db" where
  "set_metadata d key v = d\<lparr>device_metadata := (device_metadata d)(key \<mapsto> v)\<rparr>"

definition default_keys :: "pystr list" where
  "default_keys = [str ''node_role'', str ''cluster_id'', str ''ca_cert_pem'',
     str ''ca_key_pem'', str ''ca_fingerprint'', str ''device_id'', str ''device_name'',
     str ''device_model'', str ''device_location'', str ''device_group'']"

definition ensure_default_metadata :: "db \<Rightarrow> db" where
  "ensure_default_metadata d =
     fold (\<lambda>key d'. if get_metadata d' key = None then set_metadata d' key None else d')
       default_keys d"

section \<open>The certificate library, as the handlers use it\<close>

text \<open>
  \<^verbatim>\<open>x509.DNSName(value)\<close> raises \<^verbatim>\<open>ValueError\<close> unless the value encodes as ASCII.
  A character is ASCII when its top bit is clear; the rendered texts are ASCII.
\<close>

fun is_ascii :: "sym \<Rightarrow> bool" where
  "is_ascii (Chr c) = (\<not> digit7 c)"
| "is_ascii _ = True"

definition x509_DNSName :: "pystr \<Rightarrow> error + general_name" where
  "x509_DNSName v = (if list_all is_ascii v then Inr (DNSName v) else Inl ValueError)"

fun load_pem_x509_certificate :: "pystr \<Rightarrow> error + certificate" where
  "load_pem_x509_certificate [PemCertificate c] = Inr c"
| "load_pem_x509_certificate _ = Inl ValueError"

fun load_pem_private_key :: "pystr \<Rightarrow> error + nat" where
  "load_pem_private_key [PemPrivateKey k] = Inr k"
| "load_pem_private_key _ = Inl ValueError"

fun load_pem_x509_csr :: "pystr \<Rightarrow> error + csr" where
  "load_pem_x509_csr [PemCsr r] = Inr r"
| "load_pem_x509_csr _ = Inl ValueError"

subsection \<open>generate_ca (src/cluster/crypto.py)\<close>

text \<open>
  The call draws a private key (\<open>keygen\<close>: the key, or the library's error), a random
  serial number and the clock. It returns the PEM of the self-signed certificate, the
  PEM of the key and the fingerprint of the certificate.
\<close>

definition generate_ca ::
  "pystr \<Rightarrow> error + nat \<Rightarrow> nat \<Rightarrow> datetime \<Rightarrow> error + (pystr \<times> pystr \<times> pystr)" where
  "generate_ca common_name keygen serial now =
     (case keygen of
        Inl e \<Rightarrow> Inl e
      | Inr private_key \<Rightarrow>
          let cert = Certificate common_name common_name private_key serial
                       (now - minutes 1) (now + days 3650) True None private_key
          in Inr ([PemCertificate cert], [PemPrivateKey private_key], [Sha256Hex cert]))"

subsection \<open>generate_key_and_csr (src/devices/crypto.py)\<close>

definition generate_key_and_csr ::
  "pystr \<Rightarrow> pystr \<Rightarrow> pystr \<Rightarrow> error + nat \<Rightarrow> error + (pystr \<times> pystr)" where
  "generate_key_and_csr common_name device_id cluster_id keygen =
     (case keygen of
        Inl e \<Rightarrow> Inl e
      | Inr private_key \<Rightarrow>
          (case x509_DNSName (str ''device:'' @ device_id) of
             Inl e \<Rightarrow> Inl e
           | Inr n1 \<Rightarrow>
               (case x509_DNSName (str ''cluster:'' @ cluster_id) of
                  Inl e \<Rightarrow> Inl e
                | Inr n2 \<Rightarrow>
                    Inr ([PemPrivateKey private_key],
                         [PemCsr (CertificateSigningRequest common_name private_key
                                    (Some [n1, n2]) private_key)]))))"

section \<open>sign_csr (src/cluster/routes.py)\<close>

record CSRPayload =
  csr_pem :: pystr
  device_id :: pystr
  cluster_id :: pystr
  name :: "pystr option"

record CertBundle =
  device_cert_pem :: pystr
  ca_cert_pem :: pystr
  expires_at :: datetime

text \<open>
  What one call of \<^verbatim>\<open>sign_csr\<close> draws from outside: the key generator, serial and
  clock of the CA it may have to create, then the serial and the clock of the device
  certificate.
\<close>

record sign_env =
  se_keygen :: "error + nat"
  se_ca_serial :: nat
  se_ca_now :: datetime
  se_serial :: nat
  se_now :: datetime

text \<open>
  The second half of the handler, from the loading of the CA material on. A value
  \<^verbatim>\<open>None\<close> has no \<^verbatim>\<open>encode\<close> (\<^verbatim>\<open>AttributeError\<close>, here \<open>ValueError\<close>); a text that is
  not the PEM of the expected object makes the loader raise. The names of the
  subject-alternative-name extension are built inside \<^verbatim>\<open>try\<close>: when one of them
  raises, the certificate is signed without the extension.
\<close>

definition sign_loaded ::
  "CSRPayload \<Rightarrow> sign_env \<Rightarrow> pystr option \<Rightarrow> pystr option \<Rightarrow> error + CertBundle" where
  "sign_loaded payload env ca_cert_pem_v ca_key_pem_v =
     (case ca_cert_pem_v of
        None \<Rightarrow> Inl ValueError
      | Some ca_cert_text \<Rightarrow>
     (case load_pem_x509_certificate ca_cert_text of
        Inl e \<Rightarrow> Inl e
      | Inr ca_cert \<Rightarrow>
     (case ca_key_pem_v of
        None \<Rightarrow> Inl ValueError
      | Some ca_key_text \<Rightarrow>
     (case load_pem_private_key ca_key_text of
        Inl e \<Rightarrow> Inl e
      | Inr ca_key \<Rightarrow>
     (case load_pem_x509_csr (csr_pem payload) of
        Inl e \<Rightarrow> Inl e
      | Inr csr \<Rightarrow>
          let now = se_now env;
              san = (case x509_DNSName (str ''device:'' @ device_id payload) of
                       Inl e \<Rightarrow> None
                     | Inr n1 \<Rightarrow>
                         (case x509_DNSName (str ''cluster:'' @ cluster_id payload) of
                            Inl e \<Rightarrow> None
                          | Inr n2 \<Rightarrow> Some [n1, n2]));
              device_cert = Certificate (csr_subject csr) (cert_subject ca_cert)
                              (csr_public_key csr) (se_serial env)
                              (now - minutes 1) (now + days 60) False san ca_key
          in Inr \<lparr>device_cert_pem = [PemCertificate device_cert],
                  ca_cert_pem = ca_cert_text,
                  expires_at = now + days 60\<rparr>)))))"

definition sign_csr :: "CSRPayload \<Rightarrow> sign_env \<Rightarrow> db \<Rightarrow> (error + CertBundle) \<times> db" where
  "sign_csr payload env d =
     (let d1 = ensure_default_metadata d;
          ca_cert_pem_v = get_metadata d1 (str ''ca_cert_pem'');
          ca_key_pem_v = get_metadata d1 (str ''ca_key_pem'')
      in if \<not> truthy ca_cert_pem_v \<or> \<not> truthy ca_key_pem_v then
           (case generate_ca (str ''CTHz Cluster CA'') (se_keygen env) (se_ca_serial env)
                   (se_ca_now env) of
              Inl e \<Rightarrow> (Inl (HTTPException 409 (str ''CA not initialized'')), d1)
            | Inr (cert_pem, key_pem, fp) \<Rightarrow>
                let d2 = set_metadata d1 (str ''ca_cert_pem'') (Some cert_pem);
                    d3 = set_metadata d2 (str ''ca_key_pem'') (Some key_pem);
                    d4 = set_metadata d3 (str ''ca_fingerprint'') (Some fp)
                in (sign_loaded payload env (get_metadata d4 (str ''ca_cert_pem''))
                      (get_metadata d4 (str ''ca_key_pem'')), d4))
         else (sign_loaded payload env ca_cert_pem_v ca_key_pem_v, d1))"

text \<open>
  Reading the identity back from a certificate, as the specification describes it: the
  identifier of a tag is what follows the tag in the first DNS name that starts with it.
\<close>

definition strip_tag :: "pystr \<Rightarrow> general_name \<Rightarrow> pystr option" where
  "strip_tag tag n =
     (case n of DNSName v \<Rightarrow>
        if take (length tag) v = tag then Some (drop (length tag) v) else None)"

definition san_identifier :: "pystr \<Rightarrow> certificate \<Rightarrow> pystr option" where
  "san_identifier tag cert =
     (case cert_san cert of
        None \<Rightarrow> None
      | Some names \<Rightarrow>
          (case List.map_filter (strip_tag tag) names of [] \<Rightarrow> None | x # _ \<Rightarrow> Some x))"

text \<open>
  The stored CA material can be used by \<^verbatim>\<open>sign_csr\<close>: either both texts are present and
  are the PEM of a certificate and of a key, or one is missing and the key generator
  delivers.
\<close>

definition ca_ready :: "sign_env \<Rightarrow> db \<Rightarrow> bool" where
  "ca_ready env d =
     (let c = get_metadata d (str ''ca_cert_pem''); k = get_metadata d (str ''ca_key_pem'')
      in if truthy c \<and> truthy k
         then (case (c, k) of
                 (Some [PemCertificate _], Some [PemPrivateKey _]) \<Rightarrow> True
               | _ \<Rightarrow> False)
         else (case se_keygen env of Inl _ \<Rightarrow> False | Inr _ \<Rightarrow> True))"

section \<open>create_pairing_token (src/cluster/routes.py)\<close>

record PairingTokenRequest =
  req_target_device_id :: "pystr option"
  req_target_ip :: "pystr option"

record claims =
  c_iss :: pystr
  c_aud :: pystr
  c_sub :: pystr
  c_cluster_id :: pystr
  c_jti :: pystr
  c_exp :: int
  c_target_ip :: "pystr option"
  c_target_device_id :: "pystr option"

text \<open>
  The compact token \<^verbatim>\<open>jwt.encode(claims, key, algorithm)\<close>, kept symbolic: the claims
  signed, the key and the algorithm.
\<close>

datatype jwt = Jwt claims pystr pystr

record PairingTokenResponse =
  tr_token :: jwt
  tr_exp :: datetime
  tr_cluster_id :: pystr
  tr_jti :: pystr

text \<open>
  \<^verbatim>\<open>int(dt.timestamp())\<close> for a naive \<^verbatim>\<open>datetime\<close>: the value is read in the zone of the
  host (\<open>utc_offset\<close>, in microseconds, is what that zone adds to UTC) and the seconds
  are truncated toward zero.
\<close>

definition int_timestamp :: "int \<Rightarrow> datetime \<Rightarrow> int" where
  "int_timestamp utc_offset dt =
     (let us = dt - utc_offset
      in if 0 \<le> us then us div 1000000 else - ((- us) div 1000000))"

text \<open>
  What one call draws from outside: the clock, the fresh \<^verbatim>\<open>uuid4\<close>, the clock read again
  by the column default of \<^verbatim>\<open>created_at\<close> when the row is inserted, the signing key of the
  settings and the zone of the host.
\<close>

record token_env =
  te_now :: datetime
  te_jti :: pystr
  te_created_at :: datetime
  te_secret_key :: pystr
  te_utc_offset :: int

text \<open>
  The column \<^verbatim>\<open>token\<close> is unique: committing a row whose \<^verbatim>\<open>jti\<close> is already stored
  raises, and the row is not kept.
\<close>

definition create_pairing_token ::
  "PairingTokenRequest \<Rightarrow> token_env \<Rightarrow> db \<Rightarrow> (error + PairingTokenResponse) \<times> db" where
  "create_pairing_token req env d =
     (let now = te_now env;
          exp = now + minutes 10;
          jti = te_jti env;
          d1 = ensure_default_metadata d;
          cluster_id = py_or (get_metadata d1 (str ''cluster_id'')) (str ''cluster-stub'')
      in if jti \<in> set (map pt_token (pairing_tokens d1)) then (Inl IntegrityError, d1)
         else
           let d2 = d1\<lparr>pairing_tokens := pairing_tokens d1 @
                       [\<lparr>pt_token = jti,
                         pt_source_device_id = None,
                         pt_target_device_id = req_target_device_id req,
                         pt_cluster_id = Some cluster_id,
                         pt_created_at = Some (te_created_at env),
                         pt_expires_at = exp,
                         pt_used = False\<rparr>]\<rparr>;
               cl = \<lparr>c_iss = str ''manager'',
                     c_aud = str ''device'',
                     c_sub = str ''pairing'',
                     c_cluster_id = cluster_id,
                     c_jti = jti,
                     c_exp = int_timestamp (te_utc_offset env) exp,
                     c_target_ip = req_target_ip req,
                     c_target_device_id = req_target_device_id req\<rparr>;
               token = Jwt cl (te_secret_key env) (str ''HS256'')
           in (Inr \<lparr>tr_token = token, tr_exp = exp, tr_cluster_id = cluster_id,
                    tr_jti = jti\<rparr>, d2))"

section \<open>pair_device_via_manager (src/cluster/routes.py)\<close>

text \<open>A call to the peer: the exception it ends in, or the JSON it answers.\<close>

datatype 'a http_result = Failed pystr | Replied 'a

text \<open>
  The answer of the peer to the CSR request, a JSON object: each key is a string, or is
  missing or null.
\<close>

record device_csr =
  dc_csr_pem :: "pystr option"
  dc_device_id :: "pystr option"
  dc_cluster_id :: "pystr option"
  dc_name :: "pystr option"

record install_result =
  ir_status :: "pystr option"

text \<open>\<^verbatim>\<open>CSRPayload(**device_csr)\<close>: the three required fields must be strings.\<close>

definition make_CSRPayload :: "device_csr \<Rightarrow> error + CSRPayload" where
  "make_CSRPayload dc =
     (case dc_csr_pem dc of
        None \<Rightarrow> Inl ValidationError
      | Some p \<Rightarrow>
     (case dc_device_id dc of
        None \<Rightarrow> Inl ValidationError
      | Some i \<Rightarrow>
     (case dc_cluster_id dc of
        None \<Rightarrow> Inl ValidationError
      | Some c \<Rightarrow> Inr \<lparr>csr_pem = p, device_id = i, cluster_id = c, name = dc_name dc\<rparr>)))"

record pair_env =
  pe_token_env :: token_env
  pe_csr_response :: "device_csr http_result"
  pe_sign_env :: sign_env
  pe_install_response :: "install_result http_result"
  pe_utcnow1 :: datetime
  pe_utcnow2 :: datetime

record pair_result =
  pr_status :: pystr
  pr_relationship :: pystr
  pr_ip_address :: pystr
  pr_device_id :: pystr

text \<open>\<^verbatim>\<open>query.filter(p).first()\<close> and the mutation of the row it returns.\<close>

fun update_first :: "('a \<Rightarrow> bool) \<Rightarrow> ('a \<Rightarrow> 'a) \<Rightarrow> 'a list \<Rightarrow> 'a list" where
  "update_first p f [] = []"
| "update_first p f (x # xs) = (if p x then f x # xs else x # update_first p f xs)"

text \<open>
  The handler takes \<^verbatim>\<open>target_ip\<close> from the JSON body (\<open>None\<close> when the key is missing).
  The address it derives for the peer only says where the two requests go; their
  outcomes are inputs here. The last step of the handler: the row of the device is updated or inserted, then the
  friendly name is stored. The two clock readings are taken in the order of the source.
\<close>

definition register_paired_device ::
  "pystr \<Rightarrow> device_csr \<Rightarrow> datetime \<Rightarrow> datetime \<Rightarrow> db \<Rightarrow> db" where
  "register_paired_device target_ip dc utcnow1 utcnow2 d =
     (let d1 = ensure_default_metadata d;
          cluster_id = get_metadata d1 (str ''cluster_id'');
          device_id = (case dc_device_id dc of None \<Rightarrow> str ''unknown'' | Some i \<Rightarrow> i);
          d2 = (case find (\<lambda>r. pd_device_id r = device_id) (paired_devices d1) of
                  Some pd \<Rightarrow>
                    d1\<lparr>paired_devices :=
                         update_first (\<lambda>r. pd_device_id r = device_id)
                           (\<lambda>r. r\<lparr>pd_ip_address := target_ip,
                                  pd_role := str ''member'',
                                  pd_cluster_id := cluster_id,
                                  pd_last_seen := Some utcnow1,
                                  pd_paired_at :=
                                    (case pd_paired_at r of
                                       None \<Rightarrow> Some utcnow2
                                     | Some t \<Rightarrow> Some t)\<rparr>)
                           (paired_devices d1)\<rparr>
                | None \<Rightarrow>
                    d1\<lparr>paired_devices := paired_devices d1 @
                         [\<lparr>pd_device_id = device_id,
                           pd_ip_address = target_ip,
                           pd_role = str ''member'',
                           pd_cluster_id = cluster_id,
                           pd_shared_secret = None,
                           pd_paired_at = Some utcnow1,
                           pd_last_seen = Some utcnow2\<rparr>]\<rparr>)
      in if truthy (dc_name dc)
         then set_metadata d2 (str ''paired_name:'' @ device_id) (dc_name dc)
         else d2)"

definition pair_device_via_manager ::
  "pystr option \<Rightarrow> pair_env \<Rightarrow> db \<Rightarrow> (error + pair_result) \<times> db" where
  "pair_device_via_manager body_target_ip env d =
     (case (if truthy body_target_ip then body_target_ip else None) of
        None \<Rightarrow> (Inl (HTTPException 400 (str ''target_ip required'')), d)
      | Some target_ip \<Rightarrow>
        (case find (\<lambda>r. pd_ip_address r = target_ip) (paired_devices d) of
           Some existing \<Rightarrow> (Inl (HTTPException 409 (str ''Device already paired'')), d)
         | None \<Rightarrow>
        (case create_pairing_token
                \<lparr>req_target_device_id = None, req_target_ip = Some target_ip\<rparr>
                (pe_token_env env) d of
           (Inl e, d1) \<Rightarrow> (Inl e, d1)
         | (Inr token_resp, d1) \<Rightarrow>
        (case pe_csr_response env of
           Failed e \<Rightarrow>
             (Inl (HTTPException 408 (str ''Device CSR request failed: '' @ e)), d1)
         | Replied dc \<Rightarrow>
        (case make_CSRPayload dc of
           Inl e \<Rightarrow> (Inl e, d1)
         | Inr payload \<Rightarrow>
        (case sign_csr payload (pe_sign_env env) d1 of
           (Inl e, d2) \<Rightarrow> (Inl e, d2)
         | (Inr cert_bundle, d2) \<Rightarrow>
        (case pe_install_response env of
           Failed e \<Rightarrow>
             (Inl (HTTPException 500 (str ''Device cert install failed: '' @ e)), d2)
         | Replied res \<Rightarrow>
             (Inr \<lparr>pr_status = (case ir_status res of None \<Rightarrow> str ''paired'' | Some st \<Rightarrow> st),
                   pr_relationship = str ''manager'',
                   pr_ip_address = target_ip,
                   pr_device_id =
                     (case dc_device_id dc of None \<Rightarrow> str ''unknown'' | Some i \<Rightarrow> i)\<rparr>,
              register_paired_device target_ip dc (pe_utcnow1 env) (pe_utcnow2 env)
                d2))))))))"

section \<open>heartbeat and revoke_device (src/cluster/routes.py)\<close>

text \<open>
  The request model gives \<^verbatim>\<open>time\<close> the clock as default, so the handler always finds a
  \<^verbatim>\<open>datetime\<close> there (a \<^verbatim>\<open>datetime\<close> is never false, and \<^verbatim>\<open>req.time or utcnow()\<close> is
  \<^verbatim>\<open>req.time\<close>). The reply is \<^verbatim>\<open>{"ok": True}\<close>.
\<close>

record HeartbeatRequest =
  hb_device_id :: pystr
  hb_time :: datetime

definition heartbeat :: "HeartbeatRequest \<Rightarrow> db \<Rightarrow> bool \<times> db" where
  "heartbeat req d =
     (case find (\<lambda>r. pd_device_id r = hb_device_id req) (paired_devices d) of
        Some pd \<Rightarrow>
          (True, d\<lparr>paired_devices :=
                     update_first (\<lambda>r. pd_device_id r = hb_device_id req)
                       (\<lambda>r. r\<lparr>pd_last_seen := Some (hb_time req)\<rparr>) (paired_devices d)\<rparr>)
      | None \<Rightarrow> (True, d))"

fun remove_first :: "('a \<Rightarrow> bool) \<Rightarrow> 'a list \<Rightarrow> 'a list" where
  "remove_first p [] = []"
| "remove_first p (x # xs) = (if p x then xs else x # remove_first p xs)"

definition revoke_device :: "pystr \<Rightarrow> db \<Rightarrow> (error + bool) \<times> db" where
  "revoke_device dev d =
     (case find (\<lambda>r. pd_device_id r = dev) (paired_devices d) of
        None \<Rightarrow> (Inl (HTTPException 404 (str ''Device not found'')), d)
      | Some row \<Rightarrow>
          (Inr True,
           d\<lparr>paired_devices := remove_first (\<lambda>r. pd_device_id r = dev) (paired_devices d)\<rparr>))"

section \<open>list_cluster_devices and get_cluster_device (src/cluster/routes.py)\<close>

text \<open>
  An entry of the list. The two dates are rendered by \<^verbatim>\<open>isoformat\<close> in the source; the
  entry keeps the date itself.
\<close>

record device_entry =
  de_device_id :: pystr
  de_ip_address :: pystr
  de_role :: pystr
  de_cluster_id :: "pystr option"
  de_paired_at :: "datetime option"
  de_last_seen :: "datetime option"
  de_status :: pystr
  de_status_color :: pystr
  de_display_name :: pystr

text \<open>
  The answer of a peer to \<^verbatim>\<open>/api/devices/info\<close>: the status code, the content type
  (\<^verbatim>\<open>""\<close> when the header is missing) and the body read as JSON: not JSON at all, JSON
  that is not an object, or an object with its \<^verbatim>\<open>name\<close>.
\<close>

datatype json_info = NotJson | JsonOther | JsonObject "pystr option"

record info_response =
  ir_status_code :: nat
  ir_content_type :: pystr
  ir_json :: json_info

text \<open>
  The two calls of one probe: \<^verbatim>\<open>/healthz\<close> (its status code) and the info endpoint,
  each ending in an exception (a transport failure or the 3 second timeout) or in a
  response.
\<close>

record probe_outcome =
  po_healthz :: "nat http_result"
  po_info :: "info_response http_result"

definition startswith :: "pystr \<Rightarrow> pystr \<Rightarrow> bool" where
  "startswith s p = (take (length p) s = p)"

definition probe_one :: "device_entry \<Rightarrow> probe_outcome \<Rightarrow> device_entry" where
  "probe_one device out =
     (if de_ip_address device = [] then device
      else
        (case po_healthz out of
           Failed e \<Rightarrow> device
         | Replied code \<Rightarrow>
             if code = 200
             then device\<lparr>de_status := str ''online'', de_status_color := str ''green''\<rparr>
             else
               (case po_info out of
                  Failed e \<Rightarrow> device
                | Replied r2 \<Rightarrow>
                    if ir_status_code r2 = 200 \<or> ir_status_code r2 = 401
                    then
                      let device1 = device\<lparr>de_status := str ''online'',
                                            de_status_color := str ''green''\<rparr>
                      in if startswith (ir_content_type r2) (str ''application/json'')
                         then (case ir_json r2 of
                                 JsonObject (Some n) \<Rightarrow>
                                   if n \<noteq> [] then device1\<lparr>de_display_name := n\<rparr>
                                   else device1
                               | _ \<Rightarrow> device1)
                         else device1
                    else device)))"

text \<open>
  The request of the list: whether \<^verbatim>\<open>live\<close> is \<^verbatim>\<open>true\<close> in the query, and the
  \<^verbatim>\<open>netloc\<close> that \<^verbatim>\<open>urlparse\<close> finds in the base URL (or the exception it raises).
  The probes run as concurrent tasks, each on the entry of its own index; \<open>probes i\<close> is
  what the network does to the probe of entry \<open>i\<close>.
\<close>

record list_request =
  lr_live :: bool
  lr_netloc :: "error + pystr"

definition list_cluster_devices ::
  "list_request \<Rightarrow> datetime \<Rightarrow> (nat \<Rightarrow> probe_outcome) \<Rightarrow> db \<Rightarrow> device_entry list \<times> db" where
  "list_cluster_devices request now probes d =
     (let rows = paired_devices d;
          devices =
            map (\<lambda>row.
                   let computed =
                         (case pd_last_seen row of
                            None \<Rightarrow> str ''offline''
                          | Some seen \<Rightarrow>
                              let delta = now - seen
                              in if delta < seconds 120 then str ''online''
                                 else if delta < seconds 600 then str ''warning''
                                 else str ''offline'');
                       friendly_name = get_metadata d (str ''paired_name:'' @ pd_device_id row)
                   in \<lparr>de_device_id = pd_device_id row,
                       de_ip_address = pd_ip_address row,
                       de_role = pd_role row,
                       de_cluster_id = pd_cluster_id row,
                       de_paired_at = pd_paired_at row,
                       de_last_seen = pd_last_seen row,
                       de_status = computed,
                       de_status_color =
                         (if computed = str ''online'' then str ''green''
                          else if computed = str ''warning'' then str ''yellow''
                          else str ''red''),
                       de_display_name = py_or friendly_name (pd_device_id row)\<rparr>)
              rows;
          d1 = ensure_default_metadata d;
          devices1 =
            (case lr_netloc request of
               Inl e \<Rightarrow> devices
             | Inr netloc \<Rightarrow>
                 let manager_device_id = py_or (get_metadata d1 (str ''device_id'')) (str ''manager'');
                     manager_display_name =
                       py_or (get_metadata d1 (str ''device_name'')) manager_device_id;
                     manager_hostport = py_or (Some netloc) (str ''localhost:8000'')
                 in \<lparr>de_device_id = manager_device_id,
                     de_ip_address = manager_hostport,
                     de_role = str ''manager'',
                     de_cluster_id = get_metadata d1 (str ''cluster_id''),
                     de_paired_at = None,
                     de_last_seen = Some now,
                     de_status = str ''online'',
                     de_status_color = str ''green'',
                     de_display_name = manager_display_name\<rparr> # devices)
      in if \<not> lr_live request \<or> devices1 = [] then (devices1, d1)
         else (map (\<lambda>(i, dev). probe_one dev (probes i)) (enumerate 0 devices1), d1))"

record device_detail =
  dd_device_id :: pystr
  dd_ip_address :: pystr
  dd_role :: pystr
  dd_cluster_id :: "pystr option"
  dd_paired_at :: "datetime option"
  dd_last_seen :: "datetime option"
  dd_status :: pystr
  dd_status_color :: pystr

definition get_cluster_device ::
  "pystr \<Rightarrow> bool \<Rightarrow> datetime \<Rightarrow> nat http_result \<Rightarrow> db \<Rightarrow> error + device_detail" where
  "get_cluster_device dev live now info d =
     (case find (\<lambda>r. pd_device_id r = dev) (paired_devices d) of
        None \<Rightarrow> Inl (HTTPException 404 (str ''Device not found''))
      | Some row \<Rightarrow>
          let status =
                (case pd_last_seen row of
                   None \<Rightarrow> str ''offline''
                 | Some seen \<Rightarrow>
                     let delta = now - seen
                     in if delta < seconds 120 then str ''online''
                        else if delta < seconds 600 then str ''warning''
                        else str ''offline'');
              data = \<lparr>dd_device_id = pd_device_id row,
                      dd_ip_address = pd_ip_address row,
                      dd_role = pd_role row,
                      dd_cluster_id = pd_cluster_id row,
                      dd_paired_at = pd_paired_at row,
                      dd_last_seen = pd_last_seen row,
                      dd_status = status,
                      dd_status_color =
                        (if status = str ''online'' then str ''green''
                         else if status = str ''warning'' then str ''yellow''
                         else str ''red'')\<rparr>
          in if \<not> live \<or> dd_ip_address data = [] then Inr data
             else
               (case info of
                  Failed e \<Rightarrow> Inr data
                | Replied code \<Rightarrow>
                    if code = 200
                    then Inr (data\<lparr>dd_status := str ''online'', dd_status_color := str ''green''\<rparr>)
                    else Inr data))"

section \<open>bootstrap_ca (src/cluster/routes.py)\<close>

text \<open>Python's \<^verbatim>\<open>str\<close> of an integer.\<close>

fun str_nat :: "nat \<Rightarrow> string" where
  "str_nat n =
     (if n < 10 then [''0123456789'' ! n]
      else str_nat (n div 10) @ [''0123456789'' ! (n mod 10)])"

definition str_int :: "int \<Rightarrow> string" where
  "str_int i = (if i < 0 then CHR ''-'' # str_nat (nat (- i)) else str_nat (nat i))"

record ca_info =
  ci_cluster_id :: pystr
  ci_ca_cert_pem :: pystr
  ci_ca_fingerprint :: pystr

text \<open>
  What one call draws from outside: the clock and the zone for the cluster identifier,
  then the key generator, the serial and the clock of \<^verbatim>\<open>generate_ca\<close>.
\<close>

record bootstrap_env =
  be_now :: datetime
  be_utc_offset :: int
  be_keygen :: "error + nat"
  be_serial :: nat
  be_ca_now :: datetime

definition bootstrap_ca :: "bootstrap_env \<Rightarrow> db \<Rightarrow> (error + ca_info) \<times> db" where
  "bootstrap_ca env d =
     (let d1 = ensure_default_metadata d;
          stored = get_metadata d1 (str ''cluster_id'');
          (cluster_id, d2) =
            (if \<not> truthy stored
             then let fresh = str ''cluster-'' @
                                str (str_int (int_timestamp (be_utc_offset env) (be_now env)))
                  in (fresh, set_metadata d1 (str ''cluster_id'') (Some fresh))
             else (py_or stored [], d1));
          ca_cert_pem_v = get_metadata d2 (str ''ca_cert_pem'');
          ca_key_pem_v = get_metadata d2 (str ''ca_key_pem'');
          ca_fingerprint_v = get_metadata d2 (str ''ca_fingerprint'')
      in if \<not> (truthy ca_cert_pem_v \<and> truthy ca_key_pem_v \<and> truthy ca_fingerprint_v)
         then
           (case generate_ca (str ''CTHz Cluster CA'') (be_keygen env) (be_serial env)
                   (be_ca_now env) of
              Inl e \<Rightarrow> (Inl e, d2)
            | Inr (cert_pem, key_pem, fp) \<Rightarrow>
                let d3 = set_metadata d2 (str ''ca_cert_pem'') (Some cert_pem);
                    d4 = set_metadata d3 (str ''ca_key_pem'') (Some key_pem);
                    d5 = set_metadata d4 (str ''ca_fingerprint'') (Some fp)
                in (Inr \<lparr>ci_cluster_id = cluster_id, ci_ca_cert_pem = cert_pem,
                         ci_ca_fingerprint = fp\<rparr>, d5))
         else (Inr \<lparr>ci_cluster_id = cluster_id,
                    ci_ca_cert_pem = py_or ca_cert_pem_v [],
                    ci_ca_fingerprint = py_or ca_fingerprint_v []\<rparr>, d2))"

section \<open>The words of the specification\<close>

text \<open>
  The derived status as the specification states it: computed from \<open>now - last_seen\<close>,
  below 120 seconds \<^verbatim>\<open>online\<close>, below 600 seconds \<^verbatim>\<open>warning\<close>, else \<^verbatim>\<open>offline\<close>; an absent
  \<^verbatim>\<open>last_seen\<close> is \<^verbatim>\<open>offline\<close>. The two handlers that read a device compute the status
  inline; they are compared with this function below.
\<close>

definition derived_status_spec :: "datetime \<Rightarrow> datetime option \<Rightarrow> pystr" where
  "derived_status_spec now last_seen =
     (case last_seen of
        None \<Rightarrow> str ''offline''
      | Some seen \<Rightarrow>
          if now - seen < seconds 120 then str ''online''
          else if now - seen < seconds 600 then str ''warning''
          else str ''offline'')"

text \<open>
  A probe finds its peer alive when the health call answers 200, or answers something
  else and the info call answers 200 or 401. Otherwise a call failed or timed out, or the
  peer answered with another status.
\<close>

definition probe_alive :: "probe_outcome \<Rightarrow> bool" where
  "probe_alive out =
     (case po_healthz out of
        Failed e \<Rightarrow> False
      | Replied code \<Rightarrow>
          code = 200 \<or>
          (case po_info out of
             Failed e \<Rightarrow> False
           | Replied r2 \<Rightarrow> ir_status_code r2 = 200 \<or> ir_status_code r2 = 401))"

text \<open>
  The name a probe brings back: the health call answered something else than 200, and
  the info call answered 200 or 401 with a JSON content type and a JSON object whose
  \<^verbatim>\<open>name\<close> is a non-empty string.
\<close>

definition probe_reported_name :: "probe_outcome \<Rightarrow> pystr option" where
  "probe_reported_name out =
     (case po_healthz out of
        Failed e \<Rightarrow> None
      | Replied code \<Rightarrow>
          if code = 200 then None
          else
            (case po_info out of
               Failed e \<Rightarrow> None
             | Replied r2 \<Rightarrow>
                 if (ir_status_code r2 = 200 \<or> ir_status_code r2 = 401) \<and>
                    startswith (ir_content_type r2) (str ''application/json'')
                 then (case ir_json r2 of
                         JsonObject (Some n) \<Rightarrow> if n \<noteq> [] then Some n else None
                       | _ \<Rightarrow> None)
                 else None))"

section \<open>Sample inputs\<close>

text \<open>A freshly created database, and the environment of a signing request.\<close>

definition empty_db :: db where
  "empty_db = \<lparr>device_metadata = Map.empty, paired_devices = [], pairing_tokens = []\<rparr>"

definition sample_sign_env :: sign_env where
  "sample_sign_env =
     \<lparr>se_keygen = Inr 9, se_ca_serial = 1, se_ca_now = 1000, se_serial = 2, se_now = 2000\<rparr>"

definition sample_bootstrap_env :: bootstrap_env where
  "sample_bootstrap_env =
     \<lparr>be_now = seconds 1700000000, be_utc_offset = 0, be_keygen = Inr 7, be_serial = 3,
      be_ca_now = seconds 1700000000\<rparr>"

definition later_bootstrap_env :: bootstrap_env where
  "later_bootstrap_env =
     \<lparr>be_now = seconds 1800000000, be_utc_offset = 0, be_keygen = Inl CryptoError,
      be_serial = 4, be_ca_now = seconds 1800000000\<rparr>"

definition sample_payload :: "pystr \<Rightarrow> CSRPayload" where
  "sample_payload dev =
     \<lparr>csr_pem = [PemCsr (CertificateSigningRequest (str ''CTHz Node'') 5
                   (Some [DNSName (str ''device:'' @ dev), DNSName (str ''cluster:cluster-7'')]) 5)],
      device_id = dev, cluster_id = str ''cluster-7'', name = None\<rparr>"

definition sample_token_env :: token_env where
  "sample_token_env =
     \<lparr>te_now = seconds 1700000000, te_jti = str ''6f1c2a'',
      te_created_at = seconds 1700000000 + 250,
      te_secret_key = str ''dev-secret-key-change-me'', te_utc_offset = 0\<rparr>"

definition sample_device :: "pystr \<Rightarrow> pystr \<Rightarrow> datetime option \<Rightarrow> PairedDevice" where
  "sample_device dev ip seen =
     \<lparr>pd_device_id = dev, pd_ip_address = ip, pd_role = str ''member'',
      pd_cluster_id = None, pd_shared_secret = None, pd_paired_at = Some (seconds 1600000000),
      pd_last_seen = seen\<rparr>"

definition sample_db :: db where
  "sample_db =
     \<lparr>device_metadata = Map.empty,
      paired_devices =
        [sample_device (str ''dev-1'') (str ''10.0.0.5'') (Some (seconds 1700000000 - seconds 700)),
         sample_device (str ''dev-2'') (str ''10.0.0.6'') (Some (seconds 1700000000 - seconds 300)),
         sample_device (str ''dev-3'') (str ''10.0.0.7'') None],
      pairing_tokens = []\<rparr>"

definition sample_pair_env :: pair_env where
  "sample_pair_env =
     \<lparr>pe_token_env = sample_token_env,
      pe_csr_response =
        Replied \<lparr>dc_csr_pem = Some (csr_pem (sample_payload (str ''dev-2''))),
                 dc_device_id = Some (str ''dev-2''),
                 dc_cluster_id = Some (str ''cluster-7''),
                 dc_name = Some (str ''Dock scanner'')\<rparr>,
      pe_sign_env = sample_sign_env,
      pe_install_response = Replied \<lparr>ir_status = Some (str ''installed'')\<rparr>,
      pe_utcnow1 = seconds 1700000001,
      pe_utcnow2 = seconds 1700000002\<rparr>"

text \<open>
  Requests of the device list (plain and with live probes), and a network in which the
  probe of the entry at index 2 times out while every other peer answers its health call.
\<close>

definition sample_list_request :: list_request where
  "sample_list_request = \<lparr>lr_live = False, lr_netloc = Inr (str ''10.0.0.1:8000'')\<rparr>"

definition sample_live_request :: list_request where
  "sample_live_request = \<lparr>lr_live = True, lr_netloc = Inr (str ''10.0.0.1:8000'')\<rparr>"

definition probe_ok :: probe_outcome where
  "probe_ok = \<lparr>po_healthz = Replied 200, po_info = Failed (str ''not called'')\<rparr>"

definition probe_timeout :: probe_outcome where
  "probe_timeout = \<lparr>po_healthz = Failed (str ''ReadTimeout''), po_info = Failed (str ''not called'')\<rparr>"

definition sample_probes :: "nat \<Rightarrow> probe_outcome" where
  "sample_probes i = (if i = 2 then probe_timeout else probe_ok)"

text \<open>
  A network in which the address of the local node (the entry at index 0) answers the
  health call with 503 and the info call with a JSON object that carries a name, while
  every peer answers its health call.
\<close>

definition probe_named :: "pystr \<Rightarrow> probe_outcome" where
  "probe_named n =
     \<lparr>po_healthz = Replied 503,
      po_info = Replied \<lparr>ir_status_code = 200, ir_content_type = str ''application/json'',
                         ir_json = JsonObject (Some n)\<rparr>\<rparr>"

definition naming_probes :: "nat \<Rightarrow> probe_outcome" where
  "naming_probes i = (if i = 0 then probe_named (str ''Lobby'') else probe_ok)"

text \<open>
  Two more environments of a token issuance: one in which the row is inserted 10 minutes
  after the handler read the clock, and one on a host whose zone is five hours ahead of
  UTC.
\<close>

definition late_token_env :: token_env where
  "late_token_env =
     \<lparr>te_now = seconds 1700000000, te_jti = str ''6f1c2a'',
      te_created_at = seconds 1700000600,
      te_secret_key = str ''dev-secret-key-change-me'', te_utc_offset = 0\<rparr>"

definition ahead_token_env :: token_env where
  "ahead_token_env =
     \<lparr>te_now = seconds 1700000000, te_jti = str ''6f1c2a'',
      te_created_at = seconds 1700000000 + 250,
      te_secret_key = str ''dev-secret-key-change-me'', te_utc_offset = seconds 18000\<rparr>"

section \<open>The metadata store: what the defaults leave alone\<close>

lemma get_metadata_fold_defaults:
  "get_metadata
     (fold (\<lambda>key d'. if get_metadata d' key = None then set_metadata d' key None else d') ks d) k
   = get_metadata d k"
  by (induction ks arbitrary: d)
     (auto simp: get_metadata_def set_metadata_def split: option.splits)

lemma tables_fold_defaults:
  "paired_devices
     (fold (\<lambda>key d'. if get_metadata d' key = None then set_metadata d' key None else d') ks d)
   = paired_devices d \<and>
   pairing_tokens
     (fold (\<lambda>key d'. if get_metadata d' key = None then set_metadata d' key None else d') ks d)
   = pairing_tokens d"
  by (induction ks arbitrary: d) (auto simp: set_metadata_def)

lemma get_metadata_ensure [simp]:
  "get_metadata (ensure_default_metadata d) k = get_metadata d k"
  by (simp add: ensure_default_metadata_def get_metadata_fold_defaults)

lemma paired_devices_ensure [simp]:
  "paired_devices (ensure_default_metadata d) = paired_devices d"
  by (simp add: ensure_default_metadata_def tables_fold_defaults)

lemma pairing_tokens_ensure [simp]:
  "pairing_tokens (ensure_default_metadata d) = pairing_tokens d"
  by (simp add: ensure_default_metadata_def tables_fold_defaults)

lemma get_set_metadata [simp]:
  "get_metadata (set_metadata d k v) k' = (if k' = k then v else get_metadata d k')"
  by (simp add: get_metadata_def set_metadata_def)

lemma tables_set_metadata [simp]:
  "paired_devices (set_metadata d k v) = paired_devices d"
  "pairing_tokens (set_metadata d k v) = pairing_tokens d"
  by (simp_all add: set_metadata_def)

lemma get_metadata_empty_db [simp]: "get_metadata empty_db k = None"
  by (simp add: get_metadata_def empty_db_def)

lemma truthy_Some: "truthy v \<Longrightarrow> v = Some (py_or v []) \<and> py_or v [] \<noteq> []"
  by (cases v) (auto simp: py_or_def)

section \<open>Certificates carry the identity they were signed for\<close>

lemma x509_DNSName_Inr: "x509_DNSName v = Inr n \<Longrightarrow> n = DNSName v"
  by (auto simp: x509_DNSName_def split: if_splits)

lemma generate_key_and_csr_Inr:
  assumes "generate_key_and_csr cn d c kg = Inr (key_text, csr_text)"
  shows "\<exists>k. kg = Inr k \<and> key_text = [PemPrivateKey k] \<and>
           x509_DNSName (str ''device:'' @ d) = Inr (DNSName (str ''device:'' @ d)) \<and>
           x509_DNSName (str ''cluster:'' @ c) = Inr (DNSName (str ''cluster:'' @ c)) \<and>
           csr_text = [PemCsr (CertificateSigningRequest cn k
                         (Some [DNSName (str ''device:'' @ d), DNSName (str ''cluster:'' @ c)]) k)]"
  using assms
  by (auto simp: generate_key_and_csr_def x509_DNSName_def split: sum.splits if_splits)

lemma sign_loaded_san:
  assumes "x509_DNSName (str ''device:'' @ device_id payload) = Inr n1"
      and "x509_DNSName (str ''cluster:'' @ cluster_id payload) = Inr n2"
      and "sign_loaded payload env cv kv = Inr b"
  shows "\<exists>cert. device_cert_pem b = [PemCertificate cert] \<and>
           cert_san cert = Some [DNSName (str ''device:'' @ device_id payload),
                                 DNSName (str ''cluster:'' @ cluster_id payload)]"
  using assms
  by (auto simp: sign_loaded_def Let_def dest!: x509_DNSName_Inr
           split: option.splits sum.splits)

lemma sign_loaded_ok:
  assumes "x509_DNSName (str ''device:'' @ device_id payload) = Inr n1"
      and "x509_DNSName (str ''cluster:'' @ cluster_id payload) = Inr n2"
      and "csr_pem payload = [PemCsr r]"
  shows "\<exists>b. sign_loaded payload env (Some [PemCertificate ca]) (Some [PemPrivateKey k]) = Inr b"
  using assms by (simp add: sign_loaded_def Let_def)

lemma san_identifier_device:
  "cert_san cert = Some [DNSName (str ''device:'' @ d), DNSName (str ''cluster:'' @ c)]
   \<Longrightarrow> san_identifier (str ''device:'') cert = Some d"
  by (simp add: san_identifier_def List.map_filter_simps strip_tag_def)

lemma san_identifier_cluster:
  "cert_san cert = Some [DNSName (str ''device:'' @ d), DNSName (str ''cluster:'' @ c)]
   \<Longrightarrow> san_identifier (str ''cluster:'') cert = Some c"
  by (simp add: san_identifier_def List.map_filter_simps strip_tag_def)

text \<open>
  Claim C1. When \<^verbatim>\<open>generate_key_and_csr\<close> has produced a signing request for the device
  identifier \<open>d\<close> and the cluster identifier \<open>c\<close>, and the CA material of the store is
  usable, \<^verbatim>\<open>sign_csr\<close> on that request for \<open>(d, c)\<close> succeeds, and the
  subject-alternative-name extension of the certificate it returns holds exactly the two
  DNS names \<open>device:d\<close> and \<open>cluster:c\<close>, in this order; reading the two tags back gives
  \<open>d\<close> and \<open>c\<close>.
\<close>

theorem sign_csr_san_roundtrip:
  assumes gen: "generate_key_and_csr cn d c kg = Inr (key_text, csr_text)"
      and ready: "ca_ready env dbs"
  shows "\<exists>bundle db' cert.
           sign_csr \<lparr>csr_pem = csr_text, device_id = d, cluster_id = c, name = nm\<rparr> env dbs
             = (Inr bundle, db') \<and>
           device_cert_pem bundle = [PemCertificate cert] \<and>
           cert_san cert = Some [DNSName (str ''device:'' @ d), DNSName (str ''cluster:'' @ c)] \<and>
           san_identifier (str ''device:'') cert = Some d \<and>
           san_identifier (str ''cluster:'') cert = Some c"
proof -
  let ?p = "\<lparr>csr_pem = csr_text, device_id = d, cluster_id = c, name = nm\<rparr>"
  from generate_key_and_csr_Inr [OF gen] obtain k r where
    dn: "x509_DNSName (str ''device:'' @ device_id ?p) = Inr (DNSName (str ''device:'' @ d))"
        "x509_DNSName (str ''cluster:'' @ cluster_id ?p) = Inr (DNSName (str ''cluster:'' @ c))"
    and csr: "csr_pem ?p = [PemCsr r]"
    by auto
  have "\<exists>b db'. sign_csr ?p env dbs = (Inr b, db') \<and>
          (\<exists>cv kv. sign_loaded ?p env cv kv = Inr b)"
  proof (cases "truthy (get_metadata dbs (str ''ca_cert_pem'')) \<and>
                truthy (get_metadata dbs (str ''ca_key_pem''))")
    case True
    with ready obtain ca k' where
      stored: "get_metadata dbs (str ''ca_cert_pem'') = Some [PemCertificate ca]"
              "get_metadata dbs (str ''ca_key_pem'') = Some [PemPrivateKey k']"
      by (auto simp: ca_ready_def Let_def split: option.splits list.splits sym.splits)
    from sign_loaded_ok [OF dn csr] obtain b where
      "sign_loaded ?p env (Some [PemCertificate ca]) (Some [PemPrivateKey k']) = Inr b"
      by blast
    with stored show ?thesis
      by (auto simp: sign_csr_def Let_def)
  next
    case False
    with ready obtain k' where kg': "se_keygen env = Inr k'"
      by (auto simp: ca_ready_def Let_def split: sum.splits if_splits)
    let ?ca = "Certificate (str ''CTHz Cluster CA'') (str ''CTHz Cluster CA'') k'
                 (se_ca_serial env) (se_ca_now env - minutes 1) (se_ca_now env + days 3650)
                 True None k'"
    from sign_loaded_ok [OF dn csr] obtain b where
      "sign_loaded ?p env (Some [PemCertificate ?ca]) (Some [PemPrivateKey k']) = Inr b"
      by blast
    with False kg' show ?thesis
      by (auto simp: sign_csr_def Let_def generate_ca_def)
  qed
  then obtain b db' cv kv where
    s: "sign_csr ?p env dbs = (Inr b, db')" and l: "sign_loaded ?p env cv kv = Inr b"
    by blast
  from sign_loaded_san [OF dn l] obtain cert where
    c: "device_cert_pem b = [PemCertificate cert]"
       "cert_san cert = Some [DNSName (str ''device:'' @ d), DNSName (str ''cluster:'' @ c)]"
    by auto
  with s san_identifier_device [OF c(2)] san_identifier_cluster [OF c(2)] show ?thesis
    by blast
qed

theorem sign_csr_san_roundtrip_witness:
  "generate_key_and_csr (str ''CTHz Node'') (str ''dev-1'') (str ''cluster-7'') (Inr 5)
     = Inr ([PemPrivateKey 5],
            [PemCsr (CertificateSigningRequest (str ''CTHz Node'') 5
               (Some [DNSName (str ''device:dev-1''), DNSName (str ''cluster:cluster-7'')]) 5)]) \<and>
   ca_ready sample_sign_env empty_db \<and>
   (\<exists>bundle db' cert.
      sign_csr \<lparr>csr_pem = [PemCsr (CertificateSigningRequest (str ''CTHz Node'') 5
                   (Some [DNSName (str ''device:dev-1''), DNSName (str ''cluster:cluster-7'')]) 5)],
                device_id = str ''dev-1'', cluster_id = str ''cluster-7'', name = None\<rparr>
        sample_sign_env empty_db = (Inr bundle, db') \<and>
      device_cert_pem bundle = [PemCertificate cert] \<and>
      cert_san cert = Some [DNSName (str ''device:dev-1''), DNSName (str ''cluster:cluster-7'')] \<and>
      san_identifier (str ''device:'') cert = Some (str ''dev-1'') \<and>
      san_identifier (str ''cluster:'') cert = Some (str ''cluster-7''))"
proof -
  have g: "generate_key_and_csr (str ''CTHz Node'') (str ''dev-1'') (str ''cluster-7'') (Inr 5)
     = Inr ([PemPrivateKey 5],
            [PemCsr (CertificateSigningRequest (str ''CTHz Node'') 5
               (Some [DNSName (str ''device:dev-1''), DNSName (str ''cluster:cluster-7'')]) 5)])"
    by (simp add: generate_key_and_csr_def x509_DNSName_def)
  have r: "ca_ready sample_sign_env empty_db"
    by (simp add: ca_ready_def sample_sign_env_def)
  from sign_csr_san_roundtrip [OF g r, of None] g r show ?thesis
    by simp
qed

section \<open>CA material is created once\<close>

lemma bootstrap_ca_stored:
  assumes "bootstrap_ca env d = (Inr r, d')"
  shows "get_metadata d' (str ''cluster_id'') = Some (ci_cluster_id r) \<and> ci_cluster_id r \<noteq> [] \<and>
         get_metadata d' (str ''ca_cert_pem'') = Some (ci_ca_cert_pem r) \<and> ci_ca_cert_pem r \<noteq> [] \<and>
         truthy (get_metadata d' (str ''ca_key_pem'')) \<and>
         get_metadata d' (str ''ca_fingerprint'') = Some (ci_ca_fingerprint r) \<and>
         ci_ca_fingerprint r \<noteq> []"
  using assms
  by (auto simp: bootstrap_ca_def Let_def generate_ca_def
           split: if_splits sum.splits prod.splits dest: truthy_Some)

lemma bootstrap_ca_reuse:
  assumes "get_metadata d (str ''cluster_id'') = Some cid" "cid \<noteq> []"
      and "get_metadata d (str ''ca_cert_pem'') = Some cert" "cert \<noteq> []"
      and "truthy (get_metadata d (str ''ca_key_pem''))"
      and "get_metadata d (str ''ca_fingerprint'') = Some fp" "fp \<noteq> []"
  shows "bootstrap_ca env d =
           (Inr \<lparr>ci_cluster_id = cid, ci_ca_cert_pem = cert, ci_ca_fingerprint = fp\<rparr>,
            ensure_default_metadata d)"
  using assms by (simp add: bootstrap_ca_def Let_def py_or_def)

lemma sign_csr_creates:
  assumes "\<not> truthy (get_metadata d (str ''ca_cert_pem'')) \<or>
           \<not> truthy (get_metadata d (str ''ca_key_pem''))"
      and "se_keygen env = Inr k"
      and "csr_pem payload = [PemCsr r]"
  shows "\<exists>b d' ca. sign_csr payload env d = (Inr b, d') \<and>
           ca_cert_pem b = [PemCertificate ca] \<and>
           get_metadata d' (str ''ca_cert_pem'') = Some [PemCertificate ca] \<and>
           get_metadata d' (str ''ca_key_pem'') = Some [PemPrivateKey k] \<and>
           get_metadata d' (str ''ca_fingerprint'') = Some [Sha256Hex ca]"
  using assms
  by (auto simp: sign_csr_def Let_def generate_ca_def sign_loaded_def)

lemma sign_csr_keeps:
  assumes "truthy (get_metadata d (str ''ca_cert_pem''))"
      and "truthy (get_metadata d (str ''ca_key_pem''))"
  shows "snd (sign_csr payload env d) = ensure_default_metadata d"
  using assms by (simp add: sign_csr_def Let_def)

lemma sign_csr_reuses:
  assumes "get_metadata d (str ''ca_cert_pem'') = Some [PemCertificate ca]"
      and "get_metadata d (str ''ca_key_pem'') = Some [PemPrivateKey k]"
      and "csr_pem payload = [PemCsr r]"
  shows "\<exists>b. sign_csr payload env d = (Inr b, ensure_default_metadata d) \<and>
              ca_cert_pem b = [PemCertificate ca]"
  using assms
  by (auto simp: sign_csr_def Let_def sign_loaded_def split: sum.splits)

text \<open>
  Claim C2. CA material, once created, is reused. If a call of \<^verbatim>\<open>bootstrap_ca\<close> succeeds,
  a second call on the resulting store (whatever its clock and key generator) returns the
  same answer, so the same \<^verbatim>\<open>cluster_id\<close>, certificate and fingerprint, and leaves them
  stored; a later \<^verbatim>\<open>sign_csr\<close> leaves the stored fingerprint as it is. If \<^verbatim>\<open>sign_csr\<close> is
  called while the certificate or the key of the CA is missing, the key generator
  delivers and the request is the PEM of a signing request, the call creates a CA,
  stores it with its fingerprint, and succeeds; a second \<^verbatim>\<open>sign_csr\<close> succeeds with the
  same CA certificate and leaves the stored certificate and fingerprint unchanged.
\<close>

theorem ca_material_reused:
  "(\<forall>r1 d1. bootstrap_ca benv1 d = (Inr r1, d1) \<longrightarrow>
      (\<exists>d2. bootstrap_ca benv2 d1 = (Inr r1, d2) \<and>
            get_metadata d2 (str ''ca_fingerprint'') = Some (ci_ca_fingerprint r1) \<and>
            get_metadata d2 (str ''cluster_id'') = Some (ci_cluster_id r1)) \<and>
      get_metadata (snd (sign_csr p senv d1)) (str ''ca_fingerprint'')
        = Some (ci_ca_fingerprint r1)) \<and>
   ((\<not> truthy (get_metadata d (str ''ca_cert_pem'')) \<or>
     \<not> truthy (get_metadata d (str ''ca_key_pem''))) \<and>
    se_keygen senv1 = Inr k \<and> csr_pem p1 = [PemCsr q1] \<and> csr_pem p2 = [PemCsr q2] \<longrightarrow>
      (\<exists>b1 d1 b2 d2 ca.
         sign_csr p1 senv1 d = (Inr b1, d1) \<and>
         get_metadata d1 (str ''ca_cert_pem'') = Some [PemCertificate ca] \<and>
         get_metadata d1 (str ''ca_fingerprint'') = Some [Sha256Hex ca] \<and>
         sign_csr p2 senv2 d1 = (Inr b2, d2) \<and>
         get_metadata d2 (str ''ca_cert_pem'') = Some [PemCertificate ca] \<and>
         get_metadata d2 (str ''ca_fingerprint'') = Some [Sha256Hex ca] \<and>
         ca_cert_pem b1 = [PemCertificate ca] \<and>
         ca_cert_pem b2 = [PemCertificate ca]))"
proof (intro conjI allI impI)
  fix r1 d1
  assume b: "bootstrap_ca benv1 d = (Inr r1, d1)"
  note st = bootstrap_ca_stored [OF b]
  from st have "bootstrap_ca benv2 d1 = (Inr r1, ensure_default_metadata d1)"
    by (subst bootstrap_ca_reuse [of d1 "ci_cluster_id r1" "ci_ca_cert_pem r1" "ci_ca_fingerprint r1"])
       simp_all
  with st show "\<exists>d2. bootstrap_ca benv2 d1 = (Inr r1, d2) \<and>
            get_metadata d2 (str ''ca_fingerprint'') = Some (ci_ca_fingerprint r1) \<and>
            get_metadata d2 (str ''cluster_id'') = Some (ci_cluster_id r1)"
    by simp
  from st have "snd (sign_csr p senv d1) = ensure_default_metadata d1"
    by (intro sign_csr_keeps) simp_all
  with st show "get_metadata (snd (sign_csr p senv d1)) (str ''ca_fingerprint'')
        = Some (ci_ca_fingerprint r1)"
    by simp
next
  assume a: "(\<not> truthy (get_metadata d (str ''ca_cert_pem'')) \<or>
     \<not> truthy (get_metadata d (str ''ca_key_pem''))) \<and>
    se_keygen senv1 = Inr k \<and> csr_pem p1 = [PemCsr q1] \<and> csr_pem p2 = [PemCsr q2]"
  then obtain b1 d1 ca where
    s1: "sign_csr p1 senv1 d = (Inr b1, d1)" "ca_cert_pem b1 = [PemCertificate ca]"
        "get_metadata d1 (str ''ca_cert_pem'') = Some [PemCertificate ca]"
        "get_metadata d1 (str ''ca_key_pem'') = Some [PemPrivateKey k]"
        "get_metadata d1 (str ''ca_fingerprint'') = Some [Sha256Hex ca]"
    using sign_csr_creates [of d senv1 k p1 q1] by blast
  from a sign_csr_reuses [OF s1(3) s1(4), of p2 q2 senv2] obtain b2 where
    s2: "sign_csr p2 senv2 d1 = (Inr b2, ensure_default_metadata d1)"
        "ca_cert_pem b2 = [PemCertificate ca]"
    by blast
  from s1 s2 show "\<exists>b1 d1 b2 d2 ca.
         sign_csr p1 senv1 d = (Inr b1, d1) \<and>
         get_metadata d1 (str ''ca_cert_pem'') = Some [PemCertificate ca] \<and>
         get_metadata d1 (str ''ca_fingerprint'') = Some [Sha256Hex ca] \<and>
         sign_csr p2 senv2 d1 = (Inr b2, d2) \<and>
         get_metadata d2 (str ''ca_cert_pem'') = Some [PemCertificate ca] \<and>
         get_metadata d2 (str ''ca_fingerprint'') = Some [Sha256Hex ca] \<and>
         ca_cert_pem b1 = [PemCertificate ca] \<and>
         ca_cert_pem b2 = [PemCertificate ca]"
    by (intro exI [of _ b1] exI [of _ d1] exI [of _ b2]
              exI [of _ "ensure_default_metadata d1"] exI [of _ ca]) simp
qed

lemma bootstrap_ca_sample: "\<exists>r1 d1. bootstrap_ca sample_bootstrap_env empty_db = (Inr r1, d1) \<and>
        ci_cluster_id r1 = str ''cluster-1700000000''"
  by (simp add: bootstrap_ca_def sample_bootstrap_env_def Let_def int_timestamp_def
        seconds_def str_int_def generate_ca_def)

theorem ca_material_reused_witness:
  "(\<exists>r1 d1. bootstrap_ca sample_bootstrap_env empty_db = (Inr r1, d1) \<and>
      ci_cluster_id r1 = str ''cluster-1700000000'' \<and>
      (\<exists>d2. bootstrap_ca later_bootstrap_env d1 = (Inr r1, d2) \<and>
            get_metadata d2 (str ''ca_fingerprint'') = Some (ci_ca_fingerprint r1) \<and>
            get_metadata d2 (str ''cluster_id'') = Some (ci_cluster_id r1)) \<and>
      get_metadata (snd (sign_csr (sample_payload (str ''dev-1'')) sample_sign_env d1))
        (str ''ca_fingerprint'') = Some (ci_ca_fingerprint r1)) \<and>
   (\<exists>b1 d1 b2 d2 ca.
      sign_csr (sample_payload (str ''dev-1'')) sample_sign_env empty_db = (Inr b1, d1) \<and>
      get_metadata d1 (str ''ca_cert_pem'') = Some [PemCertificate ca] \<and>
      get_metadata d1 (str ''ca_fingerprint'') = Some [Sha256Hex ca] \<and>
      sign_csr (sample_payload (str ''dev-2''))
        (sample_sign_env\<lparr>se_keygen := Inl CryptoError\<rparr>) d1 = (Inr b2, d2) \<and>
      get_metadata d2 (str ''ca_cert_pem'') = Some [PemCertificate ca] \<and>
      get_metadata d2 (str ''ca_fingerprint'') = Some [Sha256Hex ca] \<and>
      ca_cert_pem b1 = [PemCertificate ca] \<and>
      ca_cert_pem b2 = [PemCertificate ca])"
proof -
  note t = ca_material_reused [of sample_bootstrap_env empty_db later_bootstrap_env
      "sample_payload (str ''dev-1'')" sample_sign_env sample_sign_env 9
      "sample_payload (str ''dev-1'')" _ "sample_payload (str ''dev-2'')" _
      "sample_sign_env\<lparr>se_keygen := Inl CryptoError\<rparr>"]
  obtain r1 d1 where b: "bootstrap_ca sample_bootstrap_env empty_db = (Inr r1, d1)"
      and cid: "ci_cluster_id r1 = str ''cluster-1700000000''"
    using bootstrap_ca_sample by blast
  have h: "(\<not> truthy (get_metadata empty_db (str ''ca_cert_pem'')) \<or>
     \<not> truthy (get_metadata empty_db (str ''ca_key_pem''))) \<and>
    se_keygen sample_sign_env = Inr 9"
    by (simp add: sample_sign_env_def)
  have p: "csr_pem (sample_payload (str ''dev-1'')) = [PemCsr (CertificateSigningRequest (str ''CTHz Node'') 5
                   (Some [DNSName (str ''device:dev-1''), DNSName (str ''cluster:cluster-7'')]) 5)]"
     "csr_pem (sample_payload (str ''dev-2'')) = [PemCsr (CertificateSigningRequest (str ''CTHz Node'') 5
                   (Some [DNSName (str ''device:dev-2''), DNSName (str ''cluster:cluster-7'')]) 5)]"
    by (simp_all add: sample_payload_def)
  from t b cid h p show ?thesis
    by blast
qed

section \<open>Rows found and changed by key\<close>

lemma find_None_conv: "find p xs = None \<longleftrightarrow> (\<forall>x\<in>set xs. \<not> p x)"
  by (induction xs) auto

lemma find_key_conv:
  "(find (\<lambda>r. key r = k) xs = None) = (k \<notin> set (map key xs))"
  by (induction xs) auto

lemma update_first_no_match: "\<forall>x\<in>set xs. \<not> p x \<Longrightarrow> update_first p f xs = xs"
  by (induction xs) auto

lemma map_update_first: "(\<And>x. g (f x) = g x) \<Longrightarrow> map g (update_first p f xs) = map g xs"
  by (induction xs) auto

lemma length_update_first [simp]: "length (update_first p f xs) = length xs"
  by (induction xs) auto

lemma map_if_absent: "k \<notin> set (map key xs) \<Longrightarrow> map (\<lambda>r. if key r = k then f r else r) xs = xs"
  by (induction xs) auto

lemma update_first_distinct:
  "distinct (map key xs) \<Longrightarrow>
   update_first (\<lambda>r. key r = k) f xs = map (\<lambda>r. if key r = k then f r else r) xs"
proof (induction xs)
  case Nil
  then show ?case by simp
next
  case (Cons x xs)
  show ?case
  proof (cases "key x = k")
    case True
    with Cons.prems have "k \<notin> set (map key xs)" by auto
    then have "map (\<lambda>r. if key r = k then f r else r) xs = xs" by (rule map_if_absent)
    with True show ?thesis by simp
  next
    case False
    with Cons show ?thesis by simp
  qed
qed

lemma set_remove_first: "set (map key (remove_first p xs)) \<subseteq> set (map key xs)"
  by (induction xs) auto

lemma distinct_remove_first: "distinct (map key xs) \<Longrightarrow> distinct (map key (remove_first p xs))"
proof (induction xs)
  case Nil
  then show ?case by simp
next
  case (Cons x xs)
  with set_remove_first [of key p xs] show ?case by auto
qed

lemma get_metadata_tables [simp]:
  "get_metadata (d\<lparr>pairing_tokens := ts\<rparr>) k = get_metadata d k"
  "get_metadata (d\<lparr>paired_devices := ps\<rparr>) k = get_metadata d k"
  by (simp_all add: get_metadata_def)

section \<open>Pairing an address twice\<close>

text \<open>
  Claim C3. When the target address of a pairing request is the \<^verbatim>\<open>ip_address\<close> of a row of
  the registry, the handler answers 409 (conflict) and the database is the one it found:
  no token is issued, no row is inserted or changed, no metadata is written. (The
  address is a non-empty string: an empty one is refused earlier with 400, and the
  handler never stores a row with an empty address.)
\<close>

theorem pair_conflict_leaves_state:
  assumes "r \<in> set (paired_devices d)" and "pd_ip_address r = target_ip"
      and "target_ip \<noteq> []"
  shows "pair_device_via_manager (Some target_ip) env d
           = (Inl (HTTPException 409 (str ''Device already paired'')), d)"
proof -
  from assms(1,2) have "find (\<lambda>r. pd_ip_address r = target_ip) (paired_devices d) \<noteq> None"
    by (auto simp: find_None_conv)
  then obtain e where "find (\<lambda>r. pd_ip_address r = target_ip) (paired_devices d) = Some e"
    by blast
  with assms(3) show ?thesis
    by (simp add: pair_device_via_manager_def)
qed

theorem pair_conflict_leaves_state_witness:
  "sample_device (str ''dev-1'') (str ''10.0.0.5'') (Some (seconds 1700000000 - seconds 700))
     \<in> set (paired_devices sample_db) \<and>
   pd_ip_address (sample_device (str ''dev-1'') (str ''10.0.0.5'')
                    (Some (seconds 1700000000 - seconds 700))) = str ''10.0.0.5'' \<and>
   str ''10.0.0.5'' \<noteq> [] \<and>
   pair_device_via_manager (Some (str ''10.0.0.5'')) sample_pair_env sample_db
     = (Inl (HTTPException 409 (str ''Device already paired'')), sample_db)"
proof -
  have a: "sample_device (str ''dev-1'') (str ''10.0.0.5'') (Some (seconds 1700000000 - seconds 700))
     \<in> set (paired_devices sample_db)"
    by (simp add: sample_db_def)
  have b: "pd_ip_address (sample_device (str ''dev-1'') (str ''10.0.0.5'')
                    (Some (seconds 1700000000 - seconds 700))) = str ''10.0.0.5''"
    by (simp add: sample_device_def)
  have c: "str ''10.0.0.5'' \<noteq> []" by simp
  from pair_conflict_leaves_state [OF a b c, of sample_pair_env] a b c show ?thesis
    by simp
qed

section \<open>Pairing tokens\<close>

text \<open>
  Claim C6, as amended. Every successful issuance of a pairing token has appended one
  row to the token table, under the fresh \<^verbatim>\<open>jti\<close>, with \<^verbatim>\<open>used\<close> false and \<^verbatim>\<open>expires_at\<close> equal
  to the clock reading of the handler plus exactly 10 minutes. \<^verbatim>\<open>created_at\<close> is the clock
  reading taken by the column default when the row is inserted: \<^verbatim>\<open>expires_at\<close> lies
  strictly after it exactly when the insertion reads the clock less than 10 minutes after
  the handler did. The response carries the \<^verbatim>\<open>jti\<close>, the \<^verbatim>\<open>cluster_id\<close> and the \<^verbatim>\<open>expires_at\<close>
  of the row, and the signed claims its \<^verbatim>\<open>jti\<close> and its \<^verbatim>\<open>cluster_id\<close>.
\<close>

theorem pairing_token_persisted:
  assumes "create_pairing_token req env d = (Inr resp, d')"
  shows "\<exists>row cl.
           pairing_tokens d' = pairing_tokens d @ [row] \<and>
           te_jti env \<notin> set (map pt_token (pairing_tokens d)) \<and>
           pt_token row = te_jti env \<and>
           \<not> pt_used row \<and>
           pt_expires_at row = te_now env + minutes 10 \<and>
           te_now env < pt_expires_at row \<and>
           pt_created_at row = Some (te_created_at env) \<and>
           (te_created_at env < pt_expires_at row)
             = (te_created_at env - te_now env < minutes 10) \<and>
           tr_token resp = Jwt cl (te_secret_key env) (str ''HS256'') \<and>
           tr_jti resp = pt_token row \<and>
           c_jti cl = pt_token row \<and>
           Some (c_cluster_id cl) = pt_cluster_id row \<and>
           tr_cluster_id resp = c_cluster_id cl \<and>
           tr_exp resp = pt_expires_at row"
  using assms
  by (auto simp: create_pairing_token_def Let_def minutes_def seconds_def split: if_splits)

lemma create_sample:
  "create_pairing_token \<lparr>req_target_device_id = None, req_target_ip = Some (str ''10.0.0.9'')\<rparr>
     sample_token_env empty_db
   = (Inr \<lparr>tr_token = Jwt \<lparr>c_iss = str ''manager'', c_aud = str ''device'', c_sub = str ''pairing'',
                          c_cluster_id = str ''cluster-stub'', c_jti = str ''6f1c2a'',
                          c_exp = 1700000600, c_target_ip = Some (str ''10.0.0.9''),
                          c_target_device_id = None\<rparr>
                      (str ''dev-secret-key-change-me'') (str ''HS256''),
           tr_exp = seconds 1700000600, tr_cluster_id = str ''cluster-stub'',
           tr_jti = str ''6f1c2a''\<rparr>,
      (ensure_default_metadata empty_db)
        \<lparr>pairing_tokens :=
           [\<lparr>pt_token = str ''6f1c2a'', pt_source_device_id = None, pt_target_device_id = None,
             pt_cluster_id = Some (str ''cluster-stub''),
             pt_created_at = Some (seconds 1700000000 + 250),
             pt_expires_at = seconds 1700000600, pt_used = False\<rparr>]\<rparr>)"
proof -
  have "pairing_tokens empty_db = []" by (simp add: empty_db_def)
  then show ?thesis
    by (simp add: create_pairing_token_def sample_token_env_def Let_def py_or_def
          int_timestamp_def seconds_def minutes_def)
qed

theorem pairing_token_persisted_witness:
  "\<exists>resp d'.
     create_pairing_token \<lparr>req_target_device_id = None, req_target_ip = Some (str ''10.0.0.9'')\<rparr>
       sample_token_env empty_db = (Inr resp, d') \<and>
     (\<exists>row cl.
        pairing_tokens d' = pairing_tokens empty_db @ [row] \<and>
        te_jti sample_token_env \<notin> set (map pt_token (pairing_tokens empty_db)) \<and>
        pt_token row = te_jti sample_token_env \<and>
        \<not> pt_used row \<and>
        pt_expires_at row = te_now sample_token_env + minutes 10 \<and>
        te_now sample_token_env < pt_expires_at row \<and>
        pt_created_at row = Some (te_created_at sample_token_env) \<and>
        te_created_at sample_token_env - te_now sample_token_env < minutes 10 \<and>
        te_created_at sample_token_env < pt_expires_at row \<and>
        tr_token resp = Jwt cl (te_secret_key sample_token_env) (str ''HS256'') \<and>
        tr_jti resp = pt_token row \<and>
        c_jti cl = pt_token row \<and>
        Some (c_cluster_id cl) = pt_cluster_id row \<and>
        tr_cluster_id resp = c_cluster_id cl \<and>
        tr_exp resp = pt_expires_at row)"
proof -
  have lt: "te_created_at sample_token_env - te_now sample_token_env < minutes 10"
    by (simp add: sample_token_env_def seconds_def minutes_def)
  from create_sample obtain resp d' where
    c: "create_pairing_token
          \<lparr>req_target_device_id = None, req_target_ip = Some (str ''10.0.0.9'')\<rparr>
          sample_token_env empty_db = (Inr resp, d')"
    by blast
  from pairing_token_persisted [OF c] c lt show ?thesis
    by blast
qed

text \<open>
  Claim C6, as stated, fails in two places. When the row is inserted 10 minutes after
  the handler read the clock, the stored \<^verbatim>\<open>created_at\<close> equals \<^verbatim>\<open>expires_at\<close>, which is then
  not strictly after it. On a host five hours ahead of UTC the row expires at second
  1700000600 of the epoch while the signed claims carry 1699982600 as \<^verbatim>\<open>exp\<close>: not the
  expiry of the row, and a moment before the issuance at 1700000000.
\<close>

theorem pairing_token_persisted_counterexample:
  "pairing_tokens
     (snd (create_pairing_token
             \<lparr>req_target_device_id = None, req_target_ip = Some (str ''10.0.0.9'')\<rparr>
             late_token_env empty_db))
   = [\<lparr>pt_token = str ''6f1c2a'', pt_source_device_id = None, pt_target_device_id = None,
       pt_cluster_id = Some (str ''cluster-stub''),
       pt_created_at = Some (seconds 1700000600),
       pt_expires_at = seconds 1700000600, pt_used = False\<rparr>] \<and>
   create_pairing_token
     \<lparr>req_target_device_id = None, req_target_ip = Some (str ''10.0.0.9'')\<rparr>
     ahead_token_env empty_db
   = (Inr \<lparr>tr_token = Jwt \<lparr>c_iss = str ''manager'', c_aud = str ''device'', c_sub = str ''pairing'',
                          c_cluster_id = str ''cluster-stub'', c_jti = str ''6f1c2a'',
                          c_exp = 1699982600, c_target_ip = Some (str ''10.0.0.9''),
                          c_target_device_id = None\<rparr>
                      (str ''dev-secret-key-change-me'') (str ''HS256''),
           tr_exp = seconds 1700000600, tr_cluster_id = str ''cluster-stub'',
           tr_jti = str ''6f1c2a''\<rparr>,
      (ensure_default_metadata empty_db)
        \<lparr>pairing_tokens :=
           [\<lparr>pt_token = str ''6f1c2a'', pt_source_device_id = None, pt_target_device_id = None,
             pt_cluster_id = Some (str ''cluster-stub''),
             pt_created_at = Some (seconds 1700000000 + 250),
             pt_expires_at = seconds 1700000600, pt_used = False\<rparr>]\<rparr>)"
proof -
  have "pairing_tokens empty_db = []" by (simp add: empty_db_def)
  then show ?thesis
    by (simp add: create_pairing_token_def late_token_env_def ahead_token_env_def Let_def
          py_or_def int_timestamp_def seconds_def minutes_def)
qed

text \<open>
  Claim C10. When no \<^verbatim>\<open>cluster_id\<close> is configured (the stored value is missing or empty)
  and the \<^verbatim>\<open>jti\<close> is fresh, the issuance succeeds with the placeholder \<^verbatim>\<open>cluster-stub\<close> in
  the response, in the stored row and in the signed claims, and every metadata value,
  \<^verbatim>\<open>cluster_id\<close> included, reads as before.
\<close>

theorem pairing_token_cluster_stub:
  assumes "\<not> truthy (get_metadata d (str ''cluster_id''))"
      and "te_jti env \<notin> set (map pt_token (pairing_tokens d))"
  shows "\<exists>resp d' row cl.
           create_pairing_token req env d = (Inr resp, d') \<and>
           tr_cluster_id resp = str ''cluster-stub'' \<and>
           pairing_tokens d' = pairing_tokens d @ [row] \<and>
           pt_cluster_id row = Some (str ''cluster-stub'') \<and>
           tr_token resp = Jwt cl (te_secret_key env) (str ''HS256'') \<and>
           c_cluster_id cl = str ''cluster-stub'' \<and>
           \<not> truthy (get_metadata d' (str ''cluster_id'')) \<and>
           (\<forall>k. get_metadata d' k = get_metadata d k)"
proof -
  from assms(1) have "py_or (get_metadata d (str ''cluster_id'')) (str ''cluster-stub'')
      = str ''cluster-stub''"
    by (cases "get_metadata d (str ''cluster_id'')") (auto simp: py_or_def)
  with assms show ?thesis
    by (simp add: create_pairing_token_def Let_def)
qed

theorem pairing_token_cluster_stub_witness:
  "\<not> truthy (get_metadata empty_db (str ''cluster_id'')) \<and>
   te_jti sample_token_env \<notin> set (map pt_token (pairing_tokens empty_db)) \<and>
   (\<exists>resp d' row cl.
      create_pairing_token \<lparr>req_target_device_id = None, req_target_ip = Some (str ''10.0.0.9'')\<rparr>
        sample_token_env empty_db = (Inr resp, d') \<and>
      tr_cluster_id resp = str ''cluster-stub'' \<and>
      pairing_tokens d' = pairing_tokens empty_db @ [row] \<and>
      pt_cluster_id row = Some (str ''cluster-stub'') \<and>
      tr_token resp = Jwt cl (te_secret_key sample_token_env) (str ''HS256'') \<and>
      c_cluster_id cl = str ''cluster-stub'' \<and>
      get_metadata d' (str ''cluster_id'') = None)"
proof -
  have a: "\<not> truthy (get_metadata empty_db (str ''cluster_id''))" by simp
  have b: "te_jti sample_token_env \<notin> set (map pt_token (pairing_tokens empty_db))"
    by (simp add: empty_db_def)
  from pairing_token_cluster_stub [OF a b,
      of "\<lparr>req_target_device_id = None, req_target_ip = Some (str ''10.0.0.9'')\<rparr>"]
  have "\<exists>resp d' row cl.
      create_pairing_token \<lparr>req_target_device_id = None, req_target_ip = Some (str ''10.0.0.9'')\<rparr>
        sample_token_env empty_db = (Inr resp, d') \<and>
      tr_cluster_id resp = str ''cluster-stub'' \<and>
      pairing_tokens d' = pairing_tokens empty_db @ [row] \<and>
      pt_cluster_id row = Some (str ''cluster-stub'') \<and>
      tr_token resp = Jwt cl (te_secret_key sample_token_env) (str ''HS256'') \<and>
      c_cluster_id cl = str ''cluster-stub'' \<and>
      get_metadata d' (str ''cluster_id'') = None"
    by (elim exE conjE) (intro exI conjI, assumption+, simp)
  with a b show ?thesis by blast
qed

section \<open>Heartbeats\<close>

text \<open>
  Claim C9. A heartbeat for the device \<open>d\<close> answers \<^verbatim>\<open>ok\<close>, leaves the metadata and the
  token table alone, and changes no field of any row but \<^verbatim>\<open>last_seen\<close>. When no row has
  the identifier \<open>d\<close> the database is unchanged. When the identifiers of the registry are
  distinct, the row of \<open>d\<close> gets the time of the request as \<^verbatim>\<open>last_seen\<close> and every other
  row is unchanged.
\<close>

theorem heartbeat_frame:
  "fst (heartbeat req d) = True \<and>
   device_metadata (snd (heartbeat req d)) = device_metadata d \<and>
   pairing_tokens (snd (heartbeat req d)) = pairing_tokens d \<and>
   map (\<lambda>r. r\<lparr>pd_last_seen := None\<rparr>) (paired_devices (snd (heartbeat req d)))
     = map (\<lambda>r. r\<lparr>pd_last_seen := None\<rparr>) (paired_devices d) \<and>
   (hb_device_id req \<notin> set (map pd_device_id (paired_devices d)) \<longrightarrow>
      snd (heartbeat req d) = d) \<and>
   (distinct (map pd_device_id (paired_devices d)) \<longrightarrow>
      paired_devices (snd (heartbeat req d))
        = map (\<lambda>r. if pd_device_id r = hb_device_id req
                    then r\<lparr>pd_last_seen := Some (hb_time req)\<rparr> else r)
            (paired_devices d))"
proof (cases "find (\<lambda>r. pd_device_id r = hb_device_id req) (paired_devices d)")
  case None
  then have absent: "hb_device_id req \<notin> set (map pd_device_id (paired_devices d))"
    by (simp add: find_key_conv)
  from None have "heartbeat req d = (True, d)"
    by (simp add: heartbeat_def)
  with absent show ?thesis
    by (simp add: map_if_absent)
next
  case (Some pd)
  then have present: "hb_device_id req \<in> set (map pd_device_id (paired_devices d))"
    using find_key_conv [of pd_device_id "hb_device_id req" "paired_devices d"] by auto
  from Some have h: "heartbeat req d =
      (True, d\<lparr>paired_devices :=
                 update_first (\<lambda>r. pd_device_id r = hb_device_id req)
                   (\<lambda>r. r\<lparr>pd_last_seen := Some (hb_time req)\<rparr>) (paired_devices d)\<rparr>)"
    by (simp add: heartbeat_def)
  show ?thesis
    using present
    by (simp add: h map_update_first update_first_distinct)
qed

theorem heartbeat_frame_witness:
  "distinct (map pd_device_id (paired_devices sample_db)) \<and>
   paired_devices
     (snd (heartbeat \<lparr>hb_device_id = str ''dev-2'', hb_time = seconds 1700000030\<rparr> sample_db))
     = [sample_device (str ''dev-1'') (str ''10.0.0.5'') (Some (seconds 1700000000 - seconds 700)),
        sample_device (str ''dev-2'') (str ''10.0.0.6'') (Some (seconds 1700000030)),
        sample_device (str ''dev-3'') (str ''10.0.0.7'') None] \<and>
   str ''dev-9'' \<notin> set (map pd_device_id (paired_devices sample_db)) \<and>
   snd (heartbeat \<lparr>hb_device_id = str ''dev-9'', hb_time = seconds 1700000030\<rparr> sample_db)
     = sample_db \<and>
   fst (heartbeat \<lparr>hb_device_id = str ''dev-9'', hb_time = seconds 1700000030\<rparr> sample_db)"
proof -
  have d: "distinct (map pd_device_id (paired_devices sample_db))"
    by (simp add: sample_db_def sample_device_def)
  have n: "str ''dev-9'' \<notin> set (map pd_device_id (paired_devices sample_db))"
    by (simp add: sample_db_def sample_device_def)
  from heartbeat_frame [of "\<lparr>hb_device_id = str ''dev-2'', hb_time = seconds 1700000030\<rparr>" sample_db] d
  have 1: "paired_devices
     (snd (heartbeat \<lparr>hb_device_id = str ''dev-2'', hb_time = seconds 1700000030\<rparr> sample_db))
     = [sample_device (str ''dev-1'') (str ''10.0.0.5'') (Some (seconds 1700000000 - seconds 700)),
        sample_device (str ''dev-2'') (str ''10.0.0.6'') (Some (seconds 1700000030)),
        sample_device (str ''dev-3'') (str ''10.0.0.7'') None]"
    by (simp add: sample_db_def sample_device_def)
  from heartbeat_frame [of "\<lparr>hb_device_id = str ''dev-9'', hb_time = seconds 1700000030\<rparr>" sample_db] n
  have 2: "snd (heartbeat \<lparr>hb_device_id = str ''dev-9'', hb_time = seconds 1700000030\<rparr> sample_db)
     = sample_db \<and>
     fst (heartbeat \<lparr>hb_device_id = str ''dev-9'', hb_time = seconds 1700000030\<rparr> sample_db)"
    by simp
  from d n 1 2 show ?thesis by blast
qed

section \<open>Reading the registry\<close>

lemma map_enumerate_inv:
  "(\<And>i x. g (h i x) = g x) \<Longrightarrow> map g (map (\<lambda>(i, x). h i x) (enumerate n xs)) = map g xs"
  by (induction xs arbitrary: n) auto

lemma nth_map_enumerate:
  "i < length xs \<Longrightarrow> map (\<lambda>(i, x). h i x) (enumerate n xs) ! i = h (n + i) (xs ! i)"
  by (simp add: nth_enumerate_eq)

lemma probe_one_fields [simp]:
  "de_device_id (probe_one dev out) = de_device_id dev"
  "de_ip_address (probe_one dev out) = de_ip_address dev"
  "de_role (probe_one dev out) = de_role dev"
  "de_cluster_id (probe_one dev out) = de_cluster_id dev"
  "de_paired_at (probe_one dev out) = de_paired_at dev"
  "de_last_seen (probe_one dev out) = de_last_seen dev"
  by (simp_all add: probe_one_def Let_def split: http_result.splits json_info.splits option.splits)

lemma probe_one_status:
  "de_status (probe_one dev out) = de_status dev \<or> de_status (probe_one dev out) = str ''online''"
  by (simp add: probe_one_def Let_def split: http_result.splits json_info.splits option.splits)

lemma probe_one_not_alive: "\<not> probe_alive out \<Longrightarrow> probe_one dev out = dev"
  by (auto simp: probe_one_def probe_alive_def Let_def split: http_result.splits)

lemma probe_one_alive:
  "probe_alive out \<Longrightarrow> de_ip_address dev \<noteq> [] \<Longrightarrow>
   de_status (probe_one dev out) = str ''online'' \<and> de_status_color (probe_one dev out) = str ''green''"
  by (auto simp: probe_one_def probe_alive_def Let_def
      split: http_result.splits json_info.splits option.splits)

lemma probe_one_online: "de_status dev = str ''online'' \<Longrightarrow> de_status (probe_one dev out) = str ''online''"
  using probe_one_status [of dev out] by auto

lemma probe_one_status_exact:
  "de_status (probe_one dev out)
   = (if de_ip_address dev \<noteq> [] \<and> probe_alive out then str ''online'' else de_status dev)"
  by (simp add: probe_one_def probe_alive_def Let_def
      split: http_result.splits json_info.splits option.splits)

lemma probe_one_display_name:
  "de_display_name (probe_one dev out)
   = (if de_ip_address dev = [] then de_display_name dev
      else (case probe_reported_name out of None \<Rightarrow> de_display_name dev | Some n \<Rightarrow> n))"
  by (simp add: probe_one_def probe_reported_name_def Let_def
      split: http_result.splits json_info.splits option.splits)

lemma py_or_nonempty: "dflt \<noteq> [] \<Longrightarrow> py_or x dflt \<noteq> []"
  by (simp add: py_or_def split: option.splits)

lemma list_live_eq:
  "lr_live request \<Longrightarrow>
   fst (list_cluster_devices request now probes d)
   = map (\<lambda>(i, dev). probe_one dev (probes i))
       (enumerate 0 (fst (list_cluster_devices (request\<lparr>lr_live := False\<rparr>) now probes d)))"
  by (simp add: list_cluster_devices_def Let_def)

lemma list_plain_eq:
  "\<not> lr_live request \<Longrightarrow>
   list_cluster_devices (request\<lparr>lr_live := False\<rparr>) now probes d
   = list_cluster_devices request now probes d"
  by (simp add: list_cluster_devices_def Let_def)

lemma list_plain_peers:
  assumes "\<not> lr_live request"
  shows "\<exists>pre peers.
           fst (list_cluster_devices request now probes d) = pre @ peers \<and>
           length pre = (case lr_netloc request of Inl e \<Rightarrow> 0 | Inr n \<Rightarrow> 1) \<and>
           map de_device_id peers = map pd_device_id (paired_devices d) \<and>
           map de_ip_address peers = map pd_ip_address (paired_devices d) \<and>
           map de_role peers = map pd_role (paired_devices d) \<and>
           map de_cluster_id peers = map pd_cluster_id (paired_devices d) \<and>
           map de_paired_at peers = map pd_paired_at (paired_devices d) \<and>
           map de_last_seen peers = map pd_last_seen (paired_devices d) \<and>
           map de_status peers
             = map (\<lambda>r. derived_status_spec now (pd_last_seen r)) (paired_devices d) \<and>
           map de_display_name peers
             = map (\<lambda>r. py_or (get_metadata d (str ''paired_name:'' @ pd_device_id r))
                          (pd_device_id r)) (paired_devices d)"
proof (cases "lr_netloc request")
  case (Inl e)
  show ?thesis
    apply (rule exI [of _ "[]"])
    apply (rule exI [of _ "fst (list_cluster_devices request now probes d)"])
    using assms Inl
    apply (simp add: list_cluster_devices_def Let_def derived_status_spec_def o_def
             cong: option.case_cong)
    done
next
  case (Inr n)
  show ?thesis
    apply (rule exI [of _ "[hd (fst (list_cluster_devices request now probes d))]"])
    apply (rule exI [of _ "tl (fst (list_cluster_devices request now probes d))"])
    using assms Inr
    apply (simp add: list_cluster_devices_def Let_def derived_status_spec_def o_def
             cong: option.case_cong)
    done
qed

lemma list_plain_manager:
  assumes "\<not> lr_live request" and "lr_netloc request = Inr netloc"
  shows "\<exists>m peers.
           fst (list_cluster_devices request now probes d) = m # peers \<and>
           length peers = length (paired_devices d) \<and>
           de_device_id m = py_or (get_metadata d (str ''device_id'')) (str ''manager'') \<and>
           de_display_name m
             = py_or (get_metadata d (str ''device_name''))
                 (py_or (get_metadata d (str ''device_id'')) (str ''manager'')) \<and>
           de_cluster_id m = get_metadata d (str ''cluster_id'') \<and>
           de_ip_address m = py_or (Some netloc) (str ''localhost:8000'') \<and>
           de_role m = str ''manager'' \<and>
           de_status m = str ''online'' \<and>
           de_status_color m = str ''green'' \<and>
           de_paired_at m = None \<and>
           de_last_seen m = Some now"
  using assms by (simp add: list_cluster_devices_def Let_def)

lemma get_cluster_device_status:
  assumes "find (\<lambda>r. pd_device_id r = dev) (paired_devices d) = Some row"
  shows "\<exists>data. get_cluster_device dev live now info d = Inr data \<and>
           dd_device_id data = pd_device_id row \<and>
           (\<not> live \<longrightarrow> dd_status data = derived_status_spec now (pd_last_seen row)) \<and>
           (dd_status data = derived_status_spec now (pd_last_seen row) \<or>
            dd_status data = str ''online'')"
  using assms
  by (auto simp: get_cluster_device_def Let_def derived_status_spec_def
           split: http_result.splits option.splits)

lemma list_manager_any:
  assumes nl: "lr_netloc request = Inr netloc"
  shows "\<exists>m peers.
           fst (list_cluster_devices request now probes d) = m # peers \<and>
           de_device_id m = py_or (get_metadata d (str ''device_id'')) (str ''manager'') \<and>
           de_display_name m
             = (if lr_live request
                then (case probe_reported_name (probes 0) of
                        None \<Rightarrow> py_or (get_metadata d (str ''device_name''))
                                  (py_or (get_metadata d (str ''device_id'')) (str ''manager''))
                      | Some n \<Rightarrow> n)
                else py_or (get_metadata d (str ''device_name''))
                       (py_or (get_metadata d (str ''device_id'')) (str ''manager''))) \<and>
           de_cluster_id m = get_metadata d (str ''cluster_id'') \<and>
           de_ip_address m = py_or (Some netloc) (str ''localhost:8000'') \<and>
           de_role m = str ''manager'' \<and>
           de_status m = str ''online'' \<and>
           de_paired_at m = None \<and>
           de_last_seen m = Some now \<and>
           map de_device_id peers = map pd_device_id (paired_devices d) \<and>
           map de_ip_address peers = map pd_ip_address (paired_devices d) \<and>
           map de_role peers = map pd_role (paired_devices d) \<and>
           map de_cluster_id peers = map pd_cluster_id (paired_devices d) \<and>
           map de_paired_at peers = map pd_paired_at (paired_devices d) \<and>
           map de_last_seen peers = map pd_last_seen (paired_devices d) \<and>
           (\<forall>i < length peers.
              de_status (peers ! i)
                = (if lr_live request \<and> probe_alive (probes (Suc i)) \<and>
                      pd_ip_address (paired_devices d ! i) \<noteq> []
                   then str ''online''
                   else derived_status_spec now (pd_last_seen (paired_devices d ! i))))"
proof -
  let ?plain = "request\<lparr>lr_live := False\<rparr>"
  let ?local = "py_or (get_metadata d (str ''device_name''))
                  (py_or (get_metadata d (str ''device_id'')) (str ''manager''))"
  have pl: "\<not> lr_live ?plain" and pn: "lr_netloc ?plain = Inr netloc"
    using nl by simp_all
  from list_plain_manager [OF pl pn, of now probes d] obtain m0 peers0 where
    base: "fst (list_cluster_devices ?plain now probes d) = m0 # peers0"
    and m0: "de_device_id m0 = py_or (get_metadata d (str ''device_id'')) (str ''manager'')"
      "de_display_name m0 = ?local"
      "de_cluster_id m0 = get_metadata d (str ''cluster_id'')"
      "de_ip_address m0 = py_or (Some netloc) (str ''localhost:8000'')"
      "de_role m0 = str ''manager''"
      "de_status m0 = str ''online''"
      "de_paired_at m0 = None"
      "de_last_seen m0 = Some now"
    by blast
  from list_plain_peers [OF pl, of now probes d] pn base obtain pre peers1 where
    split: "m0 # peers0 = pre @ peers1" "length pre = 1"
    and p1: "map de_device_id peers1 = map pd_device_id (paired_devices d)"
      "map de_ip_address peers1 = map pd_ip_address (paired_devices d)"
      "map de_role peers1 = map pd_role (paired_devices d)"
      "map de_cluster_id peers1 = map pd_cluster_id (paired_devices d)"
      "map de_paired_at peers1 = map pd_paired_at (paired_devices d)"
      "map de_last_seen peers1 = map pd_last_seen (paired_devices d)"
      "map de_status peers1
             = map (\<lambda>r. derived_status_spec now (pd_last_seen r)) (paired_devices d)"
    by auto
  from split have "peers1 = peers0"
    by (cases pre) auto
  note p0 = p1 [unfolded this]
  have len0: "length peers0 = length (paired_devices d)"
    using p0(1) by (metis length_map)
  have st0: "de_status (peers0 ! i) = derived_status_spec now (pd_last_seen (paired_devices d ! i))"
    if "i < length peers0" for i
  proof -
    have "map de_status peers0 ! i
            = map (\<lambda>r. derived_status_spec now (pd_last_seen r)) (paired_devices d) ! i"
      by (simp only: p0(7))
    with that len0 show ?thesis by simp
  qed
  have ip0: "de_ip_address (peers0 ! i) = pd_ip_address (paired_devices d ! i)"
    if "i < length peers0" for i
  proof -
    have "map de_ip_address peers0 ! i = map pd_ip_address (paired_devices d) ! i"
      by (simp only: p0(2))
    with that len0 show ?thesis by simp
  qed
  show ?thesis
  proof (cases "lr_live request")
    case False
    then have "fst (list_cluster_devices request now probes d) = m0 # peers0"
      using base list_plain_eq [of request now probes d] by simp
    with False m0 p0 st0 show ?thesis
      by (intro exI [of _ m0] exI [of _ peers0]) simp
  next
    case True
    let ?m = "probe_one m0 (probes 0)"
    let ?peers = "map (\<lambda>(i, dev). probe_one dev (probes i)) (enumerate (Suc 0) peers0)"
    have res: "fst (list_cluster_devices request now probes d) = ?m # ?peers"
      using list_live_eq [OF True, of now probes d] base by simp
    have inv: "map g ?peers = map g peers0" if "\<And>i x. g (probe_one x (probes i)) = g x" for g :: "device_entry \<Rightarrow> 'b"
      using that by (rule map_enumerate_inv)
    have "de_ip_address m0 \<noteq> []"
      by (simp add: m0(4) py_or_nonempty)
    then have name: "de_display_name ?m
        = (case probe_reported_name (probes 0) of None \<Rightarrow> ?local | Some n \<Rightarrow> n)"
      by (simp add: probe_one_display_name m0(2) split: option.splits)
    have st: "de_status (?peers ! i)
                = (if probe_alive (probes (Suc i)) \<and> pd_ip_address (paired_devices d ! i) \<noteq> []
                   then str ''online''
                   else derived_status_spec now (pd_last_seen (paired_devices d ! i)))"
      if "i < length ?peers" for i
    proof -
      from that have i: "i < length peers0" by simp
      then have "?peers ! i = probe_one (peers0 ! i) (probes (Suc 0 + i))"
        by (simp add: nth_enumerate_eq)
      then show ?thesis
        by (simp add: probe_one_status_exact st0 [OF i] ip0 [OF i])
    qed
    show ?thesis
      apply (rule exI [of _ ?m])
      apply (rule exI [of _ ?peers])
      using True res m0(1,3-8) p0(1-6) name st
      apply (simp add: inv probe_one_online del: map_map)
      done
  qed
qed

lemma sample_db_rows:
  "map pd_device_id (paired_devices sample_db) = [str ''dev-1'', str ''dev-2'', str ''dev-3'']"
  "map (\<lambda>r. derived_status_spec (seconds 1700000000) (pd_last_seen r)) (paired_devices sample_db)
     = [str ''offline'', str ''warning'', str ''offline'']"
  "get_metadata sample_db k = None"
  by (simp_all add: sample_db_def sample_device_def derived_status_spec_def seconds_def
        get_metadata_def)

lemma list_of_length_4:
  "length xs = 4 \<Longrightarrow> xs = [xs ! 0, xs ! 1, xs ! 2, xs ! 3]"
  by (auto simp: numeral_eq_Suc length_Suc_conv)

lemma sample_list_plain:
  "fst (list_cluster_devices sample_list_request (seconds 1700000000) sample_probes sample_db)
   = [\<lparr>de_device_id = str ''manager'', de_ip_address = str ''10.0.0.1:8000'',
       de_role = str ''manager'', de_cluster_id = None, de_paired_at = None,
       de_last_seen = Some (seconds 1700000000), de_status = str ''online'',
       de_status_color = str ''green'', de_display_name = str ''manager''\<rparr>,
      \<lparr>de_device_id = str ''dev-1'', de_ip_address = str ''10.0.0.5'',
       de_role = str ''member'', de_cluster_id = None, de_paired_at = Some (seconds 1600000000),
       de_last_seen = Some (seconds 1700000000 - seconds 700), de_status = str ''offline'',
       de_status_color = str ''red'', de_display_name = str ''dev-1''\<rparr>,
      \<lparr>de_device_id = str ''dev-2'', de_ip_address = str ''10.0.0.6'',
       de_role = str ''member'', de_cluster_id = None, de_paired_at = Some (seconds 1600000000),
       de_last_seen = Some (seconds 1700000000 - seconds 300), de_status = str ''warning'',
       de_status_color = str ''yellow'', de_display_name = str ''dev-2''\<rparr>,
      \<lparr>de_device_id = str ''dev-3'', de_ip_address = str ''10.0.0.7'',
       de_role = str ''member'', de_cluster_id = None, de_paired_at = Some (seconds 1600000000),
       de_last_seen = None, de_status = str ''offline'',
       de_status_color = str ''red'', de_display_name = str ''dev-3''\<rparr>]"
proof -
  have rows: "paired_devices sample_db =
        [sample_device (str ''dev-1'') (str ''10.0.0.5'') (Some (seconds 1700000000 - seconds 700)),
         sample_device (str ''dev-2'') (str ''10.0.0.6'') (Some (seconds 1700000000 - seconds 300)),
         sample_device (str ''dev-3'') (str ''10.0.0.7'') None]"
    by (simp add: sample_db_def)
  show ?thesis
    by (simp add: list_cluster_devices_def sample_list_request_def rows sample_device_def
          Let_def py_or_def sample_db_rows(3) seconds_def)
qed

text \<open>
  Claim C4. The derived status is \<^verbatim>\<open>online\<close> when \<open>now - last_seen\<close> is below 120 seconds,
  \<^verbatim>\<open>warning\<close> from 120 seconds up to below 600 seconds, \<^verbatim>\<open>offline\<close> from 600 seconds on and when
  \<^verbatim>\<open>last_seen\<close> is absent. The device list (read without live probes) annotates the rows
  of the registry, in order, with exactly this status, and so does the read of a single
  device.
\<close>

theorem derived_status_by_thresholds:
  "(now - seen < seconds 120 \<longrightarrow> derived_status_spec now (Some seen) = str ''online'') \<and>
   (seconds 120 \<le> now - seen \<and> now - seen < seconds 600 \<longrightarrow>
      derived_status_spec now (Some seen) = str ''warning'') \<and>
   (seconds 600 \<le> now - seen \<longrightarrow> derived_status_spec now (Some seen) = str ''offline'') \<and>
   derived_status_spec now None = str ''offline'' \<and>
   (\<not> lr_live request \<longrightarrow>
      (\<exists>pre peers.
         fst (list_cluster_devices request now probes d) = pre @ peers \<and>
         length pre = (case lr_netloc request of Inl e \<Rightarrow> 0 | Inr n \<Rightarrow> 1) \<and>
         map de_device_id peers = map pd_device_id (paired_devices d) \<and>
         map de_status peers
           = map (\<lambda>r. derived_status_spec now (pd_last_seen r)) (paired_devices d))) \<and>
   (\<forall>row. find (\<lambda>r. pd_device_id r = dev) (paired_devices d) = Some row \<longrightarrow>
      (\<exists>data. get_cluster_device dev False now info d = Inr data \<and>
              dd_device_id data = pd_device_id row \<and>
              dd_status data = derived_status_spec now (pd_last_seen row)))"
proof (intro conjI impI allI)
  assume "\<not> lr_live request"
  from list_plain_peers [OF this, of now probes d]
  show "\<exists>pre peers.
         fst (list_cluster_devices request now probes d) = pre @ peers \<and>
         length pre = (case lr_netloc request of Inl e \<Rightarrow> 0 | Inr n \<Rightarrow> 1) \<and>
         map de_device_id peers = map pd_device_id (paired_devices d) \<and>
         map de_status peers
           = map (\<lambda>r. derived_status_spec now (pd_last_seen r)) (paired_devices d)"
    by blast
next
  fix row
  assume "find (\<lambda>r. pd_device_id r = dev) (paired_devices d) = Some row"
  from get_cluster_device_status [OF this, of False now info]
  show "\<exists>data. get_cluster_device dev False now info d = Inr data \<and>
              dd_device_id data = pd_device_id row \<and>
              dd_status data = derived_status_spec now (pd_last_seen row)"
    by auto
qed (simp_all add: derived_status_spec_def seconds_def)

theorem derived_status_by_thresholds_witness:
  "seconds 1700000000 - seconds 1700000000 < seconds 120 \<and>
   derived_status_spec (seconds 1700000000) (Some (seconds 1700000000)) = str ''online'' \<and>
   seconds 120 \<le> seconds 1700000000 - (seconds 1700000000 - seconds 300) \<and>
   seconds 1700000000 - (seconds 1700000000 - seconds 300) < seconds 600 \<and>
   derived_status_spec (seconds 1700000000) (Some (seconds 1700000000 - seconds 300))
     = str ''warning'' \<and>
   seconds 600 \<le> seconds 1700000000 - (seconds 1700000000 - seconds 700) \<and>
   derived_status_spec (seconds 1700000000) (Some (seconds 1700000000 - seconds 700))
     = str ''offline'' \<and>
   \<not> lr_live sample_list_request \<and>
   map de_status
     (drop 1 (fst (list_cluster_devices sample_list_request (seconds 1700000000) sample_probes
                     sample_db)))
     = [str ''offline'', str ''warning'', str ''offline''] \<and>
   find (\<lambda>r. pd_device_id r = str ''dev-2'') (paired_devices sample_db)
     = Some (sample_device (str ''dev-2'') (str ''10.0.0.6'')
               (Some (seconds 1700000000 - seconds 300))) \<and>
   (\<exists>data. get_cluster_device (str ''dev-2'') False (seconds 1700000000) (Failed []) sample_db
              = Inr data \<and>
           dd_status data = str ''warning'')"
proof -
  let ?N = "seconds 1700000000"
  have h1: "?N - ?N < seconds 120"
    and h2: "seconds 120 \<le> ?N - (?N - seconds 300)" "?N - (?N - seconds 300) < seconds 600"
    and h3: "seconds 600 \<le> ?N - (?N - seconds 700)"
    by (simp_all add: seconds_def)
  have l: "\<not> lr_live sample_list_request" and n: "lr_netloc sample_list_request = Inr (str ''10.0.0.1:8000'')"
    by (simp_all add: sample_list_request_def)
  have f: "find (\<lambda>r. pd_device_id r = str ''dev-2'') (paired_devices sample_db)
     = Some (sample_device (str ''dev-2'') (str ''10.0.0.6'') (Some (?N - seconds 300)))"
    by (simp add: sample_db_def sample_device_def)
  from derived_status_by_thresholds [of ?N ?N] h1
  have c1: "derived_status_spec ?N (Some ?N) = str ''online''" by blast
  from derived_status_by_thresholds [of ?N "?N - seconds 300"] h2
  have c2: "derived_status_spec ?N (Some (?N - seconds 300)) = str ''warning''" by blast
  from derived_status_by_thresholds [of ?N "?N - seconds 700"] h3
  have c3: "derived_status_spec ?N (Some (?N - seconds 700)) = str ''offline''" by blast
  from derived_status_by_thresholds [of ?N ?N sample_list_request sample_probes sample_db] l
  have "\<exists>pre peers.
         fst (list_cluster_devices sample_list_request ?N sample_probes sample_db) = pre @ peers \<and>
         length pre = (case lr_netloc sample_list_request of Inl e \<Rightarrow> 0 | Inr n \<Rightarrow> 1) \<and>
         map de_device_id peers = map pd_device_id (paired_devices sample_db) \<and>
         map de_status peers
           = map (\<lambda>r. derived_status_spec ?N (pd_last_seen r)) (paired_devices sample_db)"
    by blast
  then obtain pre peers where
    p: "fst (list_cluster_devices sample_list_request ?N sample_probes sample_db) = pre @ peers"
       "length pre = (case lr_netloc sample_list_request of Inl e \<Rightarrow> 0 | Inr n \<Rightarrow> 1)"
       "map de_status peers
          = map (\<lambda>r. derived_status_spec ?N (pd_last_seen r)) (paired_devices sample_db)"
    by blast
  from p(2) n have "length pre = 1" by simp
  with p(1,3) have c4: "map de_status
     (drop 1 (fst (list_cluster_devices sample_list_request ?N sample_probes sample_db)))
     = [str ''offline'', str ''warning'', str ''offline'']"
    by (simp add: sample_db_rows)
  from derived_status_by_thresholds
         [of ?N ?N sample_list_request sample_probes sample_db "str ''dev-2''" "Failed []"] f
  have "\<exists>data. get_cluster_device (str ''dev-2'') False ?N (Failed []) sample_db = Inr data \<and>
     dd_device_id data = pd_device_id (sample_device (str ''dev-2'') (str ''10.0.0.6'') (Some (?N - seconds 300))) \<and>
     dd_status data = derived_status_spec ?N
        (pd_last_seen (sample_device (str ''dev-2'') (str ''10.0.0.6'') (Some (?N - seconds 300))))"
    by blast
  then obtain data where
    "get_cluster_device (str ''dev-2'') False ?N (Failed []) sample_db = Inr data"
    "dd_status data = derived_status_spec ?N
        (pd_last_seen (sample_device (str ''dev-2'') (str ''10.0.0.6'') (Some (?N - seconds 300))))"
    by blast
  with c2 have c5: "\<exists>data. get_cluster_device (str ''dev-2'') False ?N (Failed []) sample_db
              = Inr data \<and> dd_status data = str ''warning''"
    by (simp add: sample_device_def)
  from h1 h2 h3 l f c1 c2 c3 c4 c5 show ?thesis by blast
qed

text \<open>
  Claim C7, as amended. The handler builds the local entry from the netloc of the
  request's base URL; a request that reaches it has one, since the setup-lock middleware
  has parsed the URL of the same request before. For every such request and every
  registry state, the device list starts with the synthetic entry of the local node: its
  \<^verbatim>\<open>device_id\<close> and \<^verbatim>\<open>cluster_id\<close> come from the metadata (with \<^verbatim>\<open>manager\<close> as default
  identifier), its role is \<^verbatim>\<open>manager\<close>, its status \<^verbatim>\<open>online\<close>, its \<^verbatim>\<open>last_seen\<close> the clock.
  Its display name comes from the metadata when the list is read without live probes;
  with live probes it is the name that the probe of the node's own address brings back,
  and the name of the metadata when that probe brings none. Nothing in the entry depends
  on the stored rows. The rows of the registry follow in storage order, each with its own
  fields and its derived status, except that with live probes a row with an address whose
  probe finds the peer alive has the status \<^verbatim>\<open>online\<close>.
\<close>

theorem device_list_manager_first:
  assumes "lr_netloc request = Inr netloc"
  shows "\<exists>m peers.
           fst (list_cluster_devices request now probes d) = m # peers \<and>
           de_device_id m = py_or (get_metadata d (str ''device_id'')) (str ''manager'') \<and>
           de_display_name m
             = (if lr_live request
                then (case probe_reported_name (probes 0) of
                        None \<Rightarrow> py_or (get_metadata d (str ''device_name''))
                                  (py_or (get_metadata d (str ''device_id'')) (str ''manager''))
                      | Some n \<Rightarrow> n)
                else py_or (get_metadata d (str ''device_name''))
                       (py_or (get_metadata d (str ''device_id'')) (str ''manager''))) \<and>
           de_cluster_id m = get_metadata d (str ''cluster_id'') \<and>
           de_ip_address m = py_or (Some netloc) (str ''localhost:8000'') \<and>
           de_role m = str ''manager'' \<and>
           de_status m = str ''online'' \<and>
           de_paired_at m = None \<and>
           de_last_seen m = Some now \<and>
           map de_device_id peers = map pd_device_id (paired_devices d) \<and>
           map de_ip_address peers = map pd_ip_address (paired_devices d) \<and>
           map de_role peers = map pd_role (paired_devices d) \<and>
           map de_cluster_id peers = map pd_cluster_id (paired_devices d) \<and>
           map de_paired_at peers = map pd_paired_at (paired_devices d) \<and>
           map de_last_seen peers = map pd_last_seen (paired_devices d) \<and>
           (\<forall>i < length peers.
              de_status (peers ! i)
                = (if lr_live request \<and> probe_alive (probes (Suc i)) \<and>
                      pd_ip_address (paired_devices d ! i) \<noteq> []
                   then str ''online''
                   else derived_status_spec now (pd_last_seen (paired_devices d ! i))))"
  using assms by (rule list_manager_any)

theorem device_list_manager_first_witness:
  "lr_netloc sample_list_request = Inr (str ''10.0.0.1:8000'') \<and>
   \<not> lr_live sample_list_request \<and>
   (\<exists>m peers.
      fst (list_cluster_devices sample_list_request (seconds 1700000000) sample_probes sample_db)
        = m # peers \<and>
      de_device_id m = str ''manager'' \<and>
      de_display_name m = str ''manager'' \<and>
      de_cluster_id m = None \<and>
      de_ip_address m = str ''10.0.0.1:8000'' \<and>
      de_role m = str ''manager'' \<and>
      de_status m = str ''online'' \<and>
      de_last_seen m = Some (seconds 1700000000) \<and>
      map de_device_id peers = [str ''dev-1'', str ''dev-2'', str ''dev-3''] \<and>
      length peers = 3 \<and>
      de_status (peers ! 0) = str ''offline'' \<and>
      de_status (peers ! 1) = str ''warning'' \<and>
      de_status (peers ! 2) = str ''offline'')"
proof -
  let ?N = "seconds 1700000000"
  have n: "lr_netloc sample_list_request = Inr (str ''10.0.0.1:8000'')"
    and l: "\<not> lr_live sample_list_request"
    by (simp_all add: sample_list_request_def)
  from device_list_manager_first [OF n, of ?N sample_probes sample_db] l
  obtain m peers where
    res: "fst (list_cluster_devices sample_list_request ?N sample_probes sample_db) = m # peers"
    and m: "de_device_id m = py_or (get_metadata sample_db (str ''device_id'')) (str ''manager'')"
      "de_display_name m
         = py_or (get_metadata sample_db (str ''device_name''))
             (py_or (get_metadata sample_db (str ''device_id'')) (str ''manager''))"
      "de_cluster_id m = get_metadata sample_db (str ''cluster_id'')"
      "de_ip_address m = py_or (Some (str ''10.0.0.1:8000'')) (str ''localhost:8000'')"
      "de_role m = str ''manager''"
      "de_status m = str ''online''"
      "de_last_seen m = Some ?N"
    and ids: "map de_device_id peers = map pd_device_id (paired_devices sample_db)"
    and st: "\<And>i. i < length peers \<Longrightarrow>
               de_status (peers ! i)
                 = derived_status_spec ?N (pd_last_seen (paired_devices sample_db ! i))"
    by auto
  have ids': "map de_device_id peers = [str ''dev-1'', str ''dev-2'', str ''dev-3'']"
    using ids by (simp add: sample_db_rows)
  then have "length (map de_device_id peers) = 3"
    by simp
  then have len: "length peers = 3"
    by simp
  have nth: "derived_status_spec ?N (pd_last_seen (paired_devices sample_db ! i))
               = map (\<lambda>r. derived_status_spec ?N (pd_last_seen r)) (paired_devices sample_db) ! i"
    if "i < 3" for i
  proof -
    have "length (paired_devices sample_db) = 3"
      by (simp add: sample_db_def)
    with that show ?thesis by simp
  qed
  have s0: "de_status (peers ! 0) = str ''offline''"
    using st [of 0] len nth [of 0] by (simp add: sample_db_rows)
  have s1: "de_status (peers ! 1) = str ''warning''"
    using st [of 1] len nth [of 1] by (simp add: sample_db_rows)
  have s2: "de_status (peers ! 2) = str ''offline''"
    using st [of 2] len nth [of 2] by (simp add: sample_db_rows)
  have m': "de_device_id m = str ''manager''" "de_display_name m = str ''manager''"
      "de_cluster_id m = None" "de_ip_address m = str ''10.0.0.1:8000''"
    using m(1-4) by (simp_all add: sample_db_rows py_or_def)
  show ?thesis
    apply (intro conjI)
      apply (rule n)
     apply (rule l)
    apply (rule exI [of _ m])
    apply (rule exI [of _ peers])
    using res m' m(5-7) ids' len s0 s1 s2
    apply simp
    done
qed

text \<open>
  Claim C7, as stated, fails when the list is read with live probes. In the sample
  registry no device name is stored, so the display name of the local metadata is
  \<^verbatim>\<open>manager\<close>, and the derived status of the first row is \<^verbatim>\<open>offline\<close>. When the node's own
  address answers the health call with 503 and the info call with the name \<^verbatim>\<open>Lobby\<close>, and
  the peers answer their health calls, the local entry is shown as \<^verbatim>\<open>Lobby\<close> and the
  first row as \<^verbatim>\<open>online\<close>.
\<close>

theorem device_list_manager_first_counterexample:
  "py_or (get_metadata sample_db (str ''device_name''))
     (py_or (get_metadata sample_db (str ''device_id'')) (str ''manager'')) = str ''manager'' \<and>
   derived_status_spec (seconds 1700000000) (pd_last_seen (paired_devices sample_db ! 0))
     = str ''offline'' \<and>
   map de_display_name
     (fst (list_cluster_devices sample_live_request (seconds 1700000000) naming_probes sample_db))
     = [str ''Lobby'', str ''dev-1'', str ''dev-2'', str ''dev-3''] \<and>
   map de_status
     (fst (list_cluster_devices sample_live_request (seconds 1700000000) naming_probes sample_db))
     = [str ''online'', str ''online'', str ''online'', str ''online'']"
proof -
  have rows: "paired_devices sample_db =
        [sample_device (str ''dev-1'') (str ''10.0.0.5'') (Some (seconds 1700000000 - seconds 700)),
         sample_device (str ''dev-2'') (str ''10.0.0.6'') (Some (seconds 1700000000 - seconds 300)),
         sample_device (str ''dev-3'') (str ''10.0.0.7'') None]"
    by (simp add: sample_db_def)
  have 1: "py_or (get_metadata sample_db (str ''device_name''))
     (py_or (get_metadata sample_db (str ''device_id'')) (str ''manager'')) = str ''manager''"
    by (simp add: sample_db_rows py_or_def)
  have 2: "derived_status_spec (seconds 1700000000) (pd_last_seen (paired_devices sample_db ! 0))
     = str ''offline''"
    by (simp add: rows sample_device_def derived_status_spec_def seconds_def)
  have plain: "sample_live_request\<lparr>lr_live := False\<rparr> = sample_list_request"
    by (simp add: sample_live_request_def sample_list_request_def)
  have live: "lr_live sample_live_request"
    by (simp add: sample_live_request_def)
  have plain_eq: "list_cluster_devices sample_list_request (seconds 1700000000) naming_probes sample_db
      = list_cluster_devices sample_list_request (seconds 1700000000) sample_probes sample_db"
    by (simp add: list_cluster_devices_def sample_list_request_def Let_def)
  have res: "fst (list_cluster_devices sample_live_request (seconds 1700000000) naming_probes sample_db)
      = map (\<lambda>(i, dev). probe_one dev (naming_probes i))
          (enumerate 0 (fst (list_cluster_devices sample_list_request (seconds 1700000000)
                               sample_probes sample_db)))"
    using list_live_eq [OF live, of "seconds 1700000000" naming_probes sample_db]
    by (simp only: plain plain_eq)
  have 3: "map de_display_name
     (fst (list_cluster_devices sample_live_request (seconds 1700000000) naming_probes sample_db))
     = [str ''Lobby'', str ''dev-1'', str ''dev-2'', str ''dev-3'']"
    by (simp add: res sample_list_plain enumerate_eq_zip upt_rec naming_probes_def probe_one_def
          probe_named_def probe_ok_def startswith_def Let_def)
  have 4: "map de_status
     (fst (list_cluster_devices sample_live_request (seconds 1700000000) naming_probes sample_db))
     = [str ''online'', str ''online'', str ''online'', str ''online'']"
    by (simp add: res sample_list_plain enumerate_eq_zip upt_rec naming_probes_def probe_one_def
          probe_named_def probe_ok_def startswith_def Let_def)
  from 1 2 3 4 show ?thesis by blast
qed

text \<open>
  Claim C8. With live probes, the list has the entries of the plain list, each passed
  through the probe of its index. A probe leaves a status as it is or sets it to
  \<^verbatim>\<open>online\<close>; an entry whose probe does not find the peer alive (a call failed or timed
  out) is unchanged in every field; an entry with an address whose probe finds the peer
  alive is \<^verbatim>\<open>online\<close>. The handler returns the list in every case: no outcome of a probe
  is an error of the listing.
\<close>

theorem live_probe_only_raises_status:
  assumes live: "lr_live request"
  shows "length (fst (list_cluster_devices request now probes d))
           = length (fst (list_cluster_devices (request\<lparr>lr_live := False\<rparr>) now probes d)) \<and>
         (\<forall>i < length (fst (list_cluster_devices (request\<lparr>lr_live := False\<rparr>) now probes d)).
            fst (list_cluster_devices request now probes d) ! i
              = probe_one (fst (list_cluster_devices (request\<lparr>lr_live := False\<rparr>) now probes d) ! i)
                  (probes i) \<and>
            (de_status (fst (list_cluster_devices request now probes d) ! i)
               = de_status (fst (list_cluster_devices (request\<lparr>lr_live := False\<rparr>) now probes d) ! i) \<or>
             de_status (fst (list_cluster_devices request now probes d) ! i) = str ''online'') \<and>
            (\<not> probe_alive (probes i) \<longrightarrow>
               fst (list_cluster_devices request now probes d) ! i
                 = fst (list_cluster_devices (request\<lparr>lr_live := False\<rparr>) now probes d) ! i) \<and>
            (probe_alive (probes i) \<and>
             de_ip_address (fst (list_cluster_devices (request\<lparr>lr_live := False\<rparr>) now probes d) ! i) \<noteq> []
               \<longrightarrow> de_status (fst (list_cluster_devices request now probes d) ! i) = str ''online''))"
proof -
  let ?base = "fst (list_cluster_devices (request\<lparr>lr_live := False\<rparr>) now probes d)"
  let ?res = "fst (list_cluster_devices request now probes d)"
  have eq: "?res = map (\<lambda>(i, dev). probe_one dev (probes i)) (enumerate 0 ?base)"
    using live by (rule list_live_eq)
  have len: "length ?res = length ?base"
    by (simp add: eq)
  have nth: "?res ! i = probe_one (?base ! i) (probes i)" if "i < length ?base" for i
    using that by (simp add: eq nth_enumerate_eq)
  show ?thesis
  proof (intro conjI allI impI)
    show "length ?res = length ?base" by (rule len)
  next
    fix i assume i: "i < length ?base"
    show "?res ! i = probe_one (?base ! i) (probes i)" by (rule nth [OF i])
    show "de_status (?res ! i) = de_status (?base ! i) \<or> de_status (?res ! i) = str ''online''"
      using probe_one_status [of "?base ! i" "probes i"] by (simp add: nth [OF i])
    show "?res ! i = ?base ! i" if "\<not> probe_alive (probes i)"
      using that by (simp add: nth [OF i] probe_one_not_alive)
    show "de_status (?res ! i) = str ''online''"
      if "probe_alive (probes i) \<and> de_ip_address (?base ! i) \<noteq> []"
      using that probe_one_alive [of "probes i" "?base ! i"] by (simp add: nth [OF i])
  qed
qed

theorem live_probe_only_raises_status_witness:
  "lr_live sample_live_request \<and>
   map de_status
     (fst (list_cluster_devices sample_list_request (seconds 1700000000) sample_probes sample_db))
     = [str ''online'', str ''offline'', str ''warning'', str ''offline''] \<and>
   probe_alive (sample_probes 1) \<and> \<not> probe_alive (sample_probes 2) \<and>
   probe_alive (sample_probes 3) \<and>
   map de_status
     (fst (list_cluster_devices sample_live_request (seconds 1700000000) sample_probes sample_db))
     = [str ''online'', str ''online'', str ''warning'', str ''online''] \<and>
   fst (list_cluster_devices sample_live_request (seconds 1700000000) sample_probes sample_db) ! 2
     = fst (list_cluster_devices sample_list_request (seconds 1700000000) sample_probes sample_db) ! 2"
proof -
  let ?base = "fst (list_cluster_devices sample_list_request (seconds 1700000000) sample_probes
                      sample_db)"
  let ?res = "fst (list_cluster_devices sample_live_request (seconds 1700000000) sample_probes
                     sample_db)"
  have live: "lr_live sample_live_request"
    by (simp add: sample_live_request_def)
  have plain: "sample_live_request\<lparr>lr_live := False\<rparr> = sample_list_request"
    by (simp add: sample_live_request_def sample_list_request_def)
  have alive: "probe_alive (sample_probes 0)" "probe_alive (sample_probes 1)"
      "\<not> probe_alive (sample_probes 2)" "probe_alive (sample_probes 3)"
    by (simp_all add: sample_probes_def probe_alive_def probe_ok_def probe_timeout_def)
  note t = live_probe_only_raises_status
             [OF live, of "seconds 1700000000" sample_probes sample_db, unfolded plain]
  have len: "length ?base = 4"
    by (simp add: sample_list_plain)
  from t have rlen': "length ?res = length ?base" by blast
  with len have rlen: "length ?res = 4" by simp
  from t have every: "\<And>i. i < length ?base \<Longrightarrow>
      (\<not> probe_alive (sample_probes i) \<longrightarrow> ?res ! i = ?base ! i) \<and>
      (probe_alive (sample_probes i) \<and> de_ip_address (?base ! i) \<noteq> []
         \<longrightarrow> de_status (?res ! i) = str ''online'')"
    by blast
  have idx: "0 < length ?base" "1 < length ?base" "2 < length ?base" "3 < length ?base"
    by (simp_all add: len)
  have ip: "de_ip_address (?base ! 0) \<noteq> []" "de_ip_address (?base ! 1) \<noteq> []"
      "de_ip_address (?base ! 3) \<noteq> []"
    by (simp_all add: sample_list_plain)
  from every [OF idx(1)] alive(1) ip(1) have r0: "de_status (?res ! 0) = str ''online''" by blast
  from every [OF idx(2)] alive(2) ip(2) have r1: "de_status (?res ! 1) = str ''online''" by blast
  from every [OF idx(3)] alive(3) have r2: "?res ! 2 = ?base ! 2" by blast
  from every [OF idx(4)] alive(4) ip(3) have r3: "de_status (?res ! 3) = str ''online''" by blast
  have b2: "de_status (?base ! 2) = str ''warning''"
    by (simp add: sample_list_plain)
  have "map de_status ?res = map de_status [?res ! 0, ?res ! 1, ?res ! 2, ?res ! 3]"
    using list_of_length_4 [OF rlen] by simp
  with r0 r1 r2 r3 b2 have res: "map de_status ?res
      = [str ''online'', str ''online'', str ''warning'', str ''online'']"
    by simp
  have base: "map de_status ?base = [str ''online'', str ''offline'', str ''warning'', str ''offline'']"
    by (simp add: sample_list_plain)
  from live base alive res r2 show ?thesis by blast
qed

section \<open>One row for each device\<close>

lemma create_pairing_token_frame:
  "paired_devices (snd (create_pairing_token req env d)) = paired_devices d \<and>
   get_metadata (snd (create_pairing_token req env d)) k = get_metadata d k"
  by (simp add: create_pairing_token_def Let_def)

lemma sign_csr_frame:
  "paired_devices (snd (sign_csr payload env d)) = paired_devices d \<and>
   (k \<noteq> str ''ca_cert_pem'' \<and> k \<noteq> str ''ca_key_pem'' \<and> k \<noteq> str ''ca_fingerprint'' \<longrightarrow>
      get_metadata (snd (sign_csr payload env d)) k = get_metadata d k)"
  by (simp add: sign_csr_def Let_def split: sum.splits prod.splits)

lemma bootstrap_ca_frame:
  "paired_devices (snd (bootstrap_ca env d)) = paired_devices d"
  by (simp add: bootstrap_ca_def Let_def split: sum.splits prod.splits)

lemma list_cluster_devices_frame:
  "snd (list_cluster_devices request now probes d) = ensure_default_metadata d"
  by (simp add: list_cluster_devices_def Let_def)

lemma find_Some_key:
  "find (\<lambda>r. key r = k) xs = Some x \<Longrightarrow> k \<in> set (map key xs)"
  using find_key_conv [of key k xs] by auto

lemma register_paired_device_rows:
  assumes "distinct (map pd_device_id (paired_devices d))"
  shows "paired_devices (register_paired_device target_ip dc t1 t2 d) =
    (let dev = (case dc_device_id dc of None \<Rightarrow> str ''unknown'' | Some i \<Rightarrow> i)
     in if dev \<in> set (map pd_device_id (paired_devices d))
        then map (\<lambda>r. if pd_device_id r = dev
                       then r\<lparr>pd_ip_address := target_ip,
                              pd_role := str ''member'',
                              pd_cluster_id := get_metadata d (str ''cluster_id''),
                              pd_last_seen := Some t1,
                              pd_paired_at :=
                                (case pd_paired_at r of None \<Rightarrow> Some t2 | Some t \<Rightarrow> Some t)\<rparr>
                       else r)
               (paired_devices d)
        else paired_devices d @
               [\<lparr>pd_device_id = dev, pd_ip_address = target_ip, pd_role = str ''member'',
                 pd_cluster_id = get_metadata d (str ''cluster_id''), pd_shared_secret = None,
                 pd_paired_at = Some t1, pd_last_seen = Some t2\<rparr>])"
proof -
  let ?dev = "case dc_device_id dc of None \<Rightarrow> str ''unknown'' | Some i \<Rightarrow> i"
  show ?thesis
  proof (cases "find (\<lambda>r. pd_device_id r = ?dev) (paired_devices d)")
    case None
    then have "?dev \<notin> set (map pd_device_id (paired_devices d))"
      by (simp add: find_key_conv)
    with None show ?thesis
      by (simp add: register_paired_device_def Let_def)
  next
    case (Some pd)
    then have "?dev \<in> set (map pd_device_id (paired_devices d))"
      by (rule find_Some_key)
    with Some assms show ?thesis
      by (simp add: register_paired_device_def Let_def update_first_distinct)
  qed
qed

lemma register_paired_device_distinct:
  assumes "distinct (map pd_device_id (paired_devices d))"
  shows "distinct (map pd_device_id (paired_devices (register_paired_device target_ip dc t1 t2 d)))"
proof -
  let ?dev = "case dc_device_id dc of None \<Rightarrow> str ''unknown'' | Some i \<Rightarrow> i"
  show ?thesis
  proof (cases "find (\<lambda>r. pd_device_id r = ?dev) (paired_devices d)")
    case None
    then have "?dev \<notin> set (map pd_device_id (paired_devices d))"
      by (simp add: find_key_conv)
    with None assms show ?thesis
      by (simp add: register_paired_device_def Let_def)
  next
    case (Some pd)
    with assms show ?thesis
      by (simp add: register_paired_device_def Let_def map_update_first)
  qed
qed

lemma pair_device_via_manager_Inr:
  assumes "pair_device_via_manager body env d = (Inr res, d')"
  shows "\<exists>dc payload.
           pe_csr_response env = Replied dc \<and>
           make_CSRPayload dc = Inr payload \<and>
           body = Some (pr_ip_address res) \<and>
           pr_device_id res = (case dc_device_id dc of None \<Rightarrow> str ''unknown'' | Some i \<Rightarrow> i) \<and>
           d' = register_paired_device (pr_ip_address res) dc (pe_utcnow1 env) (pe_utcnow2 env)
                  (snd (sign_csr payload (pe_sign_env env)
                     (snd (create_pairing_token
                             \<lparr>req_target_device_id = None,
                              req_target_ip = Some (pr_ip_address res)\<rparr>
                             (pe_token_env env) d))))"
  using assms
  by (auto simp: pair_device_via_manager_def
           split: option.splits sum.splits prod.splits http_result.splits if_splits)

lemma pair_device_via_manager_Inl:
  assumes "pair_device_via_manager body env d = (Inl e, d')"
  shows "paired_devices d' = paired_devices d"
proof -
  have tok: "paired_devices d1 = paired_devices d"
    if "create_pairing_token req tenv d = (x, d1)" for req tenv x d1
    using create_pairing_token_frame [of req tenv d] that by simp
  have sgn: "paired_devices d2 = paired_devices d1"
    if "sign_csr payload senv d1 = (x, d2)" for payload senv x d1 d2
    using sign_csr_frame [of payload senv d1] that by simp
  from assms show ?thesis
    by (auto simp: pair_device_via_manager_def
             split: option.splits sum.splits prod.splits http_result.splits if_splits
             dest!: tok sgn)
qed

lemma sample_db_tables:
  "paired_devices sample_db =
        [sample_device (str ''dev-1'') (str ''10.0.0.5'') (Some (seconds 1700000000 - seconds 700)),
         sample_device (str ''dev-2'') (str ''10.0.0.6'') (Some (seconds 1700000000 - seconds 300)),
         sample_device (str ''dev-3'') (str ''10.0.0.7'') None]"
  "pairing_tokens sample_db = []"
  by (simp_all add: sample_db_def)

lemma pair_sample:
  "\<exists>res d'. pair_device_via_manager (Some (str ''10.0.0.9'')) sample_pair_env sample_db
               = (Inr res, d') \<and>
            pr_device_id res = str ''dev-2'' \<and> pr_ip_address res = str ''10.0.0.9'' \<and>
            pr_status res = str ''installed''"
  by (simp add: pair_device_via_manager_def sample_pair_env_def sample_db_tables sample_device_def
        create_pairing_token_def sample_token_env_def Let_def sample_db_rows(3)
        make_CSRPayload_def sample_payload_def sign_csr_def generate_ca_def sample_sign_env_def
        sign_loaded_def x509_DNSName_def)

text \<open>
  Claim C5. The identifiers of the registry stay distinct under every handler: pairing
  (whatever its outcome), heartbeat, revocation, token issuance, signing, CA bootstrap and
  listing. A pairing that completes for an identifier that already has a row changes
  that row in place: address, role, \<^verbatim>\<open>cluster_id\<close> and \<^verbatim>\<open>last_seen\<close> are set, \<^verbatim>\<open>paired_at\<close> only
  when it was unset, and every other row is unchanged; for a new identifier one row is
  appended.
\<close>

theorem device_id_unique_preserved:
  assumes inv: "distinct (map pd_device_id (paired_devices d))"
  shows "distinct (map pd_device_id (paired_devices (snd (pair_device_via_manager body penv d)))) \<and>
         distinct (map pd_device_id (paired_devices (snd (heartbeat hreq d)))) \<and>
         distinct (map pd_device_id (paired_devices (snd (revoke_device dev d)))) \<and>
         distinct (map pd_device_id (paired_devices (snd (create_pairing_token treq tenv d)))) \<and>
         distinct (map pd_device_id (paired_devices (snd (sign_csr payload senv d)))) \<and>
         distinct (map pd_device_id (paired_devices (snd (bootstrap_ca benv d)))) \<and>
         distinct (map pd_device_id (paired_devices (snd (list_cluster_devices lreq now probes d)))) \<and>
         (\<forall>res d'. pair_device_via_manager body penv d = (Inr res, d') \<longrightarrow>
            paired_devices d' =
              (if pr_device_id res \<in> set (map pd_device_id (paired_devices d))
               then map (\<lambda>r. if pd_device_id r = pr_device_id res
                              then r\<lparr>pd_ip_address := pr_ip_address res,
                                     pd_role := str ''member'',
                                     pd_cluster_id := get_metadata d (str ''cluster_id''),
                                     pd_last_seen := Some (pe_utcnow1 penv),
                                     pd_paired_at :=
                                       (case pd_paired_at r of
                                          None \<Rightarrow> Some (pe_utcnow2 penv)
                                        | Some t \<Rightarrow> Some t)\<rparr>
                              else r)
                      (paired_devices d)
               else paired_devices d @
                      [\<lparr>pd_device_id = pr_device_id res, pd_ip_address = pr_ip_address res,
                        pd_role = str ''member'',
                        pd_cluster_id = get_metadata d (str ''cluster_id''),
                        pd_shared_secret = None,
                        pd_paired_at = Some (pe_utcnow1 penv),
                        pd_last_seen = Some (pe_utcnow2 penv)\<rparr>]))"
proof (intro conjI allI impI)
  show "distinct (map pd_device_id (paired_devices (snd (pair_device_via_manager body penv d))))"
  proof (cases "pair_device_via_manager body penv d")
    case (Pair x d')
    show ?thesis
    proof (cases x)
      case (Inl e)
      with Pair pair_device_via_manager_Inl [of body penv d e d'] inv show ?thesis by simp
    next
      case (Inr res)
      with Pair pair_device_via_manager_Inr [of body penv d res d'] obtain dc d2 where
        "d' = register_paired_device (pr_ip_address res) dc (pe_utcnow1 penv) (pe_utcnow2 penv) d2"
        "paired_devices d2 = paired_devices d"
        by (auto simp: sign_csr_frame create_pairing_token_frame)
      with Pair inv show ?thesis
        by (simp add: register_paired_device_distinct)
    qed
  qed
  show "distinct (map pd_device_id (paired_devices (snd (heartbeat hreq d))))"
    using inv by (simp add: heartbeat_def map_update_first split: option.splits)
  show "distinct (map pd_device_id (paired_devices (snd (revoke_device dev d))))"
    using inv by (simp add: revoke_device_def distinct_remove_first split: option.splits)
  show "distinct (map pd_device_id (paired_devices (snd (create_pairing_token treq tenv d))))"
    using inv by (simp add: create_pairing_token_frame)
  show "distinct (map pd_device_id (paired_devices (snd (sign_csr payload senv d))))"
    using inv by (simp add: sign_csr_frame)
  show "distinct (map pd_device_id (paired_devices (snd (bootstrap_ca benv d))))"
    using inv by (simp add: bootstrap_ca_frame)
  show "distinct (map pd_device_id (paired_devices (snd (list_cluster_devices lreq now probes d))))"
    using inv by (simp add: list_cluster_devices_frame)
next
  fix res d'
  assume p: "pair_device_via_manager body penv d = (Inr res, d')"
  from pair_device_via_manager_Inr [OF p] obtain dc payload where
    dev: "pr_device_id res = (case dc_device_id dc of None \<Rightarrow> str ''unknown'' | Some i \<Rightarrow> i)"
    and d': "d' = register_paired_device (pr_ip_address res) dc (pe_utcnow1 penv) (pe_utcnow2 penv)
                  (snd (sign_csr payload (pe_sign_env penv)
                     (snd (create_pairing_token
                             \<lparr>req_target_device_id = None,
                              req_target_ip = Some (pr_ip_address res)\<rparr>
                             (pe_token_env penv) d))))"
    by blast
  let ?d2 = "snd (sign_csr payload (pe_sign_env penv)
                     (snd (create_pairing_token
                             \<lparr>req_target_device_id = None,
                              req_target_ip = Some (pr_ip_address res)\<rparr>
                             (pe_token_env penv) d)))"
  have rows: "paired_devices ?d2 = paired_devices d"
    by (simp add: sign_csr_frame create_pairing_token_frame)
  have cid: "get_metadata ?d2 (str ''cluster_id'') = get_metadata d (str ''cluster_id'')"
    using sign_csr_frame [of payload "pe_sign_env penv" _ "str ''cluster_id''"]
    by (simp add: create_pairing_token_frame)
  from inv rows have inv2: "distinct (map pd_device_id (paired_devices ?d2))" by simp
  show "paired_devices d' =
              (if pr_device_id res \<in> set (map pd_device_id (paired_devices d))
               then map (\<lambda>r. if pd_device_id r = pr_device_id res
                              then r\<lparr>pd_ip_address := pr_ip_address res,
                                     pd_role := str ''member'',
                                     pd_cluster_id := get_metadata d (str ''cluster_id''),
                                     pd_last_seen := Some (pe_utcnow1 penv),
                                     pd_paired_at :=
                                       (case pd_paired_at r of
                                          None \<Rightarrow> Some (pe_utcnow2 penv)
                                        | Some t \<Rightarrow> Some t)\<rparr>
                              else r)
                      (paired_devices d)
               else paired_devices d @
                      [\<lparr>pd_device_id = pr_device_id res, pd_ip_address = pr_ip_address res,
                        pd_role = str ''member'',
                        pd_cluster_id = get_metadata d (str ''cluster_id''),
                        pd_shared_secret = None,
                        pd_paired_at = Some (pe_utcnow1 penv),
                        pd_last_seen = Some (pe_utcnow2 penv)\<rparr>])"
    unfolding d' register_paired_device_rows [OF inv2] Let_def rows cid dev [symmetric]
    by (rule refl)
qed

theorem device_id_unique_preserved_witness:
  "distinct (map pd_device_id (paired_devices sample_db)) \<and>
   (\<exists>res d'.
      pair_device_via_manager (Some (str ''10.0.0.9'')) sample_pair_env sample_db = (Inr res, d') \<and>
      pr_device_id res = str ''dev-2'' \<and>
      paired_devices d' =
        [sample_device (str ''dev-1'') (str ''10.0.0.5'') (Some (seconds 1700000000 - seconds 700)),
         sample_device (str ''dev-2'') (str ''10.0.0.9'') (Some (seconds 1700000001)),
         sample_device (str ''dev-3'') (str ''10.0.0.7'') None] \<and>
      distinct (map pd_device_id (paired_devices d')))"
proof -
  have inv: "distinct (map pd_device_id (paired_devices sample_db))"
    by (simp add: sample_db_rows)
  note t = device_id_unique_preserved [OF inv, of "Some (str ''10.0.0.9'')" sample_pair_env]
  from pair_sample obtain res d' where
    p: "pair_device_via_manager (Some (str ''10.0.0.9'')) sample_pair_env sample_db = (Inr res, d')"
    and r: "pr_device_id res = str ''dev-2''" "pr_ip_address res = str ''10.0.0.9''"
    by blast
  from t p have rows: "paired_devices d' =
              (if pr_device_id res \<in> set (map pd_device_id (paired_devices sample_db))
               then map (\<lambda>r. if pd_device_id r = pr_device_id res
                              then r\<lparr>pd_ip_address := pr_ip_address res,
                                     pd_role := str ''member'',
                                     pd_cluster_id := get_metadata sample_db (str ''cluster_id''),
                                     pd_last_seen := Some (pe_utcnow1 sample_pair_env),
                                     pd_paired_at :=
                                       (case pd_paired_at r of
                                          None \<Rightarrow> Some (pe_utcnow2 sample_pair_env)
                                        | Some t \<Rightarrow> Some t)\<rparr>
                              else r)
                      (paired_devices sample_db)
               else paired_devices sample_db @
                      [\<lparr>pd_device_id = pr_device_id res, pd_ip_address = pr_ip_address res,
                        pd_role = str ''member'',
                        pd_cluster_id = get_metadata sample_db (str ''cluster_id''),
                        pd_shared_secret = None,
                        pd_paired_at = Some (pe_utcnow1 sample_pair_env),
                        pd_last_seen = Some (pe_utcnow2 sample_pair_env)\<rparr>])"
    by blast
  from t p have "distinct (map pd_device_id (paired_devices
                   (snd (pair_device_via_manager (Some (str ''10.0.0.9'')) sample_pair_env sample_db))))"
    by blast
  with p have dis: "distinct (map pd_device_id (paired_devices d'))" by simp
  from rows r have "paired_devices d' =
        [sample_device (str ''dev-1'') (str ''10.0.0.5'') (Some (seconds 1700000000 - seconds 700)),
         sample_device (str ''dev-2'') (str ''10.0.0.9'') (Some (seconds 1700000001)),
         sample_device (str ''dev-3'') (str ''10.0.0.7'') None]"
    by (simp add: sample_db_tables sample_device_def sample_db_rows(3) sample_pair_env_def)
  with inv p r dis show ?thesis by blast
qed

end
